theory Spec2Isabelle
  imports Main
begin

section \<open>Python values: exceptions, strings\<close>

text \<open>
  The exceptions the script can meet. Each of them is an instance of Python's
  \<open>Exception\<close>, so a handler \<open>except Exception\<close> catches every value of this type;
  \<open>except PermissionError\<close> catches the first constructor only. UnicodeEncodeError is
  what \<open>print\<close> raises when stdout cannot encode a character of its message.
\<close>

datatype exn = PermissionError | IndexError | AttributeError | UnicodeEncodeError | OtherError string

text \<open>
  A Python \<open>str\<close> is a \<open>string\<close>; one \<open>char\<close> stands for one code point (the
  code points below 256). \<open>str.isspace\<close> holds of the code points 9 to 13, 28 to 32,
  133 and 160 in that range. \<open>str.strip()\<close> drops the whitespace at both ends, so
  \<open>not s.strip()\<close> is \<open>strip s = []\<close>. A value that may be \<open>None\<close> is an option.
\<close>

definition isspace :: "char \<Rightarrow> bool" where
  "isspace c = (of_char c \<in> {9::nat, 10, 11, 12, 13, 28, 29, 30, 31, 32, 133, 160})"

definition strip :: "string \<Rightarrow> string" where
  "strip s = rev (dropWhile isspace (rev (dropWhile isspace s)))"

definition lower_char :: "char \<Rightarrow> char" where
  "lower_char c =
     (let n = (of_char c :: nat) in
      if (65 \<le> n \<and> n \<le> 90) \<or> (192 \<le> n \<and> n \<le> 222 \<and> n \<noteq> 215)
      then char_of (n + 32) else c)"

definition lower :: "string \<Rightarrow> string" where
  "lower s = map lower_char s"

definition endswith :: "string \<Rightarrow> string \<Rightarrow> bool" where
  "endswith s suf = (length suf \<le> length s \<and> drop (length s - length suf) s = suf)"

text \<open>Truthiness of an optional string: \<open>not x\<close> holds of \<open>None\<close> and of \<open>""\<close>.\<close>

fun falsy :: "string option \<Rightarrow> bool" where
  "falsy None = True"
| "falsy (Some s) = (s = [])"

section \<open>The document: presentation, slides, shapes, paragraphs, runs\<close>

text \<open>
  The object model of the presentation library, as the script uses it. A run owns its
  text and its formatting (\<open>rPr\<close>, opaque here). A paragraph is the sequence of its
  runs and its \<open>text\<close> is the concatenation of their texts (the data model of the
  specification, section 3). A shape has a text frame
  (a list of paragraphs) or none: \<open>hasattr(forma, "text_frame")\<close> is
  \<open>text_frame forma \<noteq> None\<close>. Objects are mutated in place; here the updated
  document is returned, and a run is referred to by its position in its paragraph.
\<close>

record run =
  run_text :: string
  rPr :: string

record parrafo =
  runs :: "run list"

record shape =
  text_frame :: "parrafo list option"

record slide =
  shapes :: "shape list"

record presentation =
  slides :: "slide list"

definition parrafo_text :: "parrafo \<Rightarrow> string" where
  "parrafo_text p = concat (map run_text (runs p))"

section \<open>The world outside the script\<close>

text \<open>
  A chat message is the dictionary \<open>{"role": ..., "content": ...}\<close>. Of a chat
  completion the script reads \<open>response.choices[0].message.content\<close> only: the
  response is the list of its choices' contents, each a string or \<open>None\<close>.
\<close>

record message =
  role :: string
  content :: string

datatype chat_completion = ChatCompletion (choices: "string option list")

record datetime =
  dt_year :: nat
  dt_month :: nat
  dt_day :: nat
  dt_hour :: nat
  dt_minute :: nat
  dt_second :: nat

text \<open>
  Every call that leaves the process is recorded in the trace of the world, in order:
  a call of the web-translation backend (source, target, text), a call of the chat
  backend (its messages), a save of the presentation (path, the exception raised if
  any) and a file copy (source, destination, the exception raised if any).
  \<open>files\<close> maps an absolute path to the bytes stored there; \<open>progreso\<close> counts
  the updates of the progress bar.
\<close>

datatype event =
    GoogleTranslate string string string
  | ChatCompletionsCreate "message list"
  | Save string "exn option"
  | Copy2 string string "exn option"

record world =
  trace :: "event list"
  files :: "string \<rightharpoonup> string"
  progreso :: nat

text \<open>
  What the script cannot decide is a parameter: the answers of the two translation
  backends, of the presentation library and of the operating system. Each answer may
  depend on the world so far (a backend may fail on one call and answer on the next).
  \<^item> \<open>google_translate e w source target text\<close> is
    \<open>GoogleTranslator(source, target).translate(text)\<close>: it raises, or returns a
    string or \<open>None\<close>;
  \<^item> \<open>chat_completions_create e w messages\<close> is \<open>openai.chat.completions.create\<close>
    with the model gpt-3.5-turbo, temperature 0.3 and max_tokens 1024;
  \<^item> \<open>Presentation e w path\<close> opens a file; \<open>save_raises\<close> and \<open>copy2_raises\<close>
    say whether \<open>presentacion.save\<close> and \<open>shutil.copy2\<close> raise; \<open>to_bytes\<close> is the
    file the library writes for a presentation;
  \<^item> \<open>path_exists\<close>, \<open>open_append\<close> (\<open>open(path, 'a')\<close>), \<open>now\<close>
    (\<open>datetime.datetime.now()\<close>) and \<open>getenv\<close> are the operating system's;
  \<^item> \<open>basename\<close>, \<open>splitext\<close>, \<open>join\<close>, \<open>dirname\<close> and \<open>abspath\<close> are the
    functions of \<open>os.path\<close>, which depend on the platform and the working directory;
  \<^item> \<open>stdout_encodes\<close> says which characters beyond ASCII the encoding of stdout has.
\<close>

record env =
  google_translate :: "world \<Rightarrow> string \<Rightarrow> string \<Rightarrow> string \<Rightarrow> exn + string option"
  chat_completions_create :: "world \<Rightarrow> message list \<Rightarrow> exn + chat_completion"
  Presentation :: "world \<Rightarrow> string \<Rightarrow> exn + presentation"
  save_raises :: "world \<Rightarrow> presentation \<Rightarrow> string \<Rightarrow> exn option"
  copy2_raises :: "world \<Rightarrow> string \<Rightarrow> string \<Rightarrow> exn option"
  to_bytes :: "presentation \<Rightarrow> string"
  path_exists :: "world \<Rightarrow> string \<Rightarrow> bool"
  open_append :: "world \<Rightarrow> string \<Rightarrow> exn option"
  now :: "world \<Rightarrow> datetime"
  getenv :: "string \<Rightarrow> string option"
  basename :: "string \<Rightarrow> string"
  splitext :: "string \<Rightarrow> string \<times> string"
  join :: "string \<Rightarrow> string \<Rightarrow> string"
  dirname :: "string \<Rightarrow> string"
  abspath :: "string \<Rightarrow> string"
  stdout_encodes :: "char \<Rightarrow> bool"

definition record_event :: "event \<Rightarrow> world \<Rightarrow> world" where
  "record_event ev w = w\<lparr>trace := trace w @ [ev]\<rparr>"

text \<open>
  \<open>print(msg)\<close> raises UnicodeEncodeError when stdout cannot encode a character of
  the message, and writes it otherwise. Every encoding of stdout has the ASCII
  characters. The text of an exception, which some messages end with, is taken to be
  ASCII, so it is not written out in the messages below.
\<close>

definition print_raises :: "env \<Rightarrow> string \<Rightarrow> exn option" where
  "print_raises e msg =
     (if list_all (\<lambda>c. (of_char c :: nat) < 128 \<or> stdout_encodes e c) msg then None
      else Some UnicodeEncodeError)"

definition CARPETA_ORIGINALES :: string where
  "CARPETA_ORIGINALES = ''originales''"

definition CARPETA_TRADUCIDOS :: string where
  "CARPETA_TRADUCIDOS = ''traducidos''"

section \<open>The translation providers\<close>

text \<open>
  \<open>traducir_texto_google\<close>: the body of the \<open>try\<close> first, then the function with its
  handler \<open>except Exception: return texto\<close>. The result of a function is the exception
  it raises (\<open>Inl\<close>) or the value it returns (\<open>Inr\<close>), with the world after the call.
  The warning of the branch \<open>resultado is None\<close> is printed inside the \<open>try\<close>. The
  messages of the handlers of both providers are ASCII followed by the text of the
  exception, and the pause \<open>time.sleep(0.5)\<close> has no part in the result: they are
  left out.
\<close>

definition mensaje_devolvio_none :: "string \<Rightarrow> string" where
  "mensaje_devolvio_none texto =
     ''Advertencia: La traducci'' @ [CHR 0xF3] @ ''n de '' @ [CHR 0x27] @ texto @ [CHR 0x27]
     @ '' devolvi'' @ [CHR 0xF3] @ '' None. Se usar'' @ [CHR 0xE1] @ '' el texto original.''"

definition google_try :: "env \<Rightarrow> string \<Rightarrow> string \<Rightarrow> string \<Rightarrow> world \<Rightarrow> (exn + string option) \<times> world" where
  "google_try e texto idioma_destino idioma_origen w =
     (let w' = record_event (GoogleTranslate idioma_origen idioma_destino texto) w in
      case google_translate e w idioma_origen idioma_destino texto of
        Inl ex \<Rightarrow> (Inl ex, w')
      | Inr resultado \<Rightarrow>
          (case resultado of
             None \<Rightarrow>
               (case print_raises e (mensaje_devolvio_none texto) of
                  Some ex \<Rightarrow> (Inl ex, w')
                | None \<Rightarrow> (Inr (Some texto), w'))
           | Some r \<Rightarrow> (Inr (Some r), w')))"

definition traducir_texto_google :: "env \<Rightarrow> string \<Rightarrow> string \<Rightarrow> string \<Rightarrow> world \<Rightarrow> (exn + string option) \<times> world" where
  "traducir_texto_google e texto idioma_destino idioma_origen w =
     (case google_try e texto idioma_destino idioma_origen w of
        (Inl ex, w') \<Rightarrow> (Inr (Some texto), w')
      | (Inr resultado, w') \<Rightarrow> (Inr resultado, w'))"

text \<open>The table of language names of \<open>traducir_texto_openai\<close>, and \<open>idiomas.get(k, k)\<close>.\<close>

definition idiomas :: "(string \<times> string) list" where
  "idiomas =
     [(''en'', ''English''), (''es'', ''Spanish''), (''fr'', ''French''), (''de'', ''German''),
      (''it'', ''Italian''), (''pt'', ''Portuguese''), (''ru'', ''Russian''), (''zh'', ''Chinese''),
      (''ja'', ''Japanese''), (''ko'', ''Korean''), (''ar'', ''Arabic''), (''hi'', ''Hindi''),
      (''auto'', ''auto-detected language'')]"

definition idiomas_get :: "string \<Rightarrow> string \<Rightarrow> string" where
  "idiomas_get k d = (case map_of idiomas k of Some v \<Rightarrow> v | None \<Rightarrow> d)"

definition openai_messages :: "string \<Rightarrow> string \<Rightarrow> string \<Rightarrow> message list" where
  "openai_messages texto idioma_destino idioma_origen =
     (let idioma_origen_nombre = idiomas_get idioma_origen idioma_origen;
          idioma_destino_nombre = idiomas_get idioma_destino idioma_destino
      in [\<lparr>role = ''system'',
            content = ''You are a professional translator. Translate the following text from ''
              @ idioma_origen_nombre @ '' to '' @ idioma_destino_nombre
              @ ''. Provide only the translation, no explanations or additional text.''\<rparr>,
          \<lparr>role = ''user'', content = texto\<rparr>])"

text \<open>
  \<open>response.choices[0]\<close> raises IndexError on an empty list, and \<open>.strip()\<close> of a
  content that is \<open>None\<close> raises AttributeError; both are inside the \<open>try\<close>.
\<close>

definition openai_try :: "env \<Rightarrow> string \<Rightarrow> string \<Rightarrow> string \<Rightarrow> world \<Rightarrow> (exn + string option) \<times> world" where
  "openai_try e texto idioma_destino idioma_origen w =
     (let messages = openai_messages texto idioma_destino idioma_origen;
          w' = record_event (ChatCompletionsCreate messages) w
      in case chat_completions_create e w messages of
           Inl ex \<Rightarrow> (Inl ex, w')
         | Inr response \<Rightarrow>
             (case choices response of
                [] \<Rightarrow> (Inl IndexError, w')
              | c # _ \<Rightarrow>
                  (case c of
                     None \<Rightarrow> (Inl AttributeError, w')
                   | Some s \<Rightarrow> (Inr (Some (strip s)), w'))))"

definition traducir_texto_openai :: "env \<Rightarrow> string \<Rightarrow> string \<Rightarrow> string \<Rightarrow> world \<Rightarrow> (exn + string option) \<times> world" where
  "traducir_texto_openai e texto idioma_destino idioma_origen w =
     (case openai_try e texto idioma_destino idioma_origen w of
        (Inl ex, w') \<Rightarrow> (Inr (Some texto), w')
      | (Inr resultado, w') \<Rightarrow> (Inr resultado, w'))"

text \<open>
  \<open>traducir_texto\<close>, the dispatcher. Its \<open>texto\<close> may be \<open>None\<close>:
  \<open>not texto or not texto.strip()\<close> returns it as it is.
\<close>

definition traducir_texto :: "env \<Rightarrow> string option \<Rightarrow> string \<Rightarrow> string \<Rightarrow> string \<Rightarrow> world \<Rightarrow> (exn + string option) \<times> world" where
  "traducir_texto e texto idioma_destino idioma_origen metodo w =
     (case texto of
        None \<Rightarrow> (Inr texto, w)
      | Some t \<Rightarrow>
          if t = [] \<or> strip t = [] then (Inr texto, w)
          else if metodo = ''openai'' then traducir_texto_openai e t idioma_destino idioma_origen w
          else traducir_texto_google e t idioma_destino idioma_origen w)"

section \<open>One paragraph: aggregation and redistribution\<close>

text \<open>
  The entries of \<open>runs_info\<close>: the run (its position in the paragraph stands for the
  reference to the object) and its text before translation.
\<close>

record run_info =
  run_ref :: nat
  texto_original :: string

text \<open>
  The loop \<open>for run in parrafo.runs\<close>: \<open>i\<close> is the position of the next run,
  \<open>runs_info\<close> and \<open>texto_completo\<close> are the two accumulators. A run whose stripped
  text is empty is passed over.
\<close>

fun recopilar :: "run list \<Rightarrow> nat \<Rightarrow> run_info list \<Rightarrow> string \<Rightarrow> run_info list \<times> string" where
  "recopilar [] i runs_info texto_completo = (runs_info, texto_completo)"
| "recopilar (r # rs) i runs_info texto_completo =
     (if strip (run_text r) = [] then recopilar rs (Suc i) runs_info texto_completo
      else recopilar rs (Suc i)
             (runs_info @ [\<lparr>run_ref = i, texto_original = run_text r\<rparr>])
             (texto_completo @ run_text r))"

text \<open>
  The assignment \<open>info['run'].text = t\<close>, on the run at position \<open>i\<close>. The setter of
  the presentation library does not store \<open>t\<close> as it is: each control character other
  than tab and line feed (the code points 0 to 8 and 11 to 31) is stored as
  \<open>_xHHHH_\<close>, its code point in four upper-case hexadecimal digits
  (\<open>"_x%04X_" % ord(c)\<close>); reading \<open>run.text\<close> gives the stored text.
\<close>

definition is_ctrl :: "char \<Rightarrow> bool" where
  "is_ctrl c = ((of_char c :: nat) \<le> 8 \<or> (11 \<le> (of_char c :: nat) \<and> (of_char c :: nat) \<le> 31))"

definition hex_digit :: "nat \<Rightarrow> char" where
  "hex_digit n = (if n mod 16 < 10 then char_of (48 + n mod 16) else char_of (55 + n mod 16))"

definition escape_char :: "char \<Rightarrow> string" where
  "escape_char c =
     (if is_ctrl c
      then ''_x'' @ [hex_digit (of_char c div 4096), hex_digit (of_char c div 256),
                     hex_digit (of_char c div 16), hex_digit (of_char c)] @ ''_''
      else [c])"

definition escape_ctrl_chars :: "string \<Rightarrow> string" where
  "escape_ctrl_chars s = concat (map escape_char s)"

definition set_run_text :: "nat \<Rightarrow> string \<Rightarrow> run list \<Rightarrow> run list" where
  "set_run_text i t rs = rs[i := (rs ! i)\<lparr>run_text := escape_ctrl_chars t\<rparr>]"

text \<open>The loop \<open>for info in runs_info[1:]: info['run'].text = ""\<close>.\<close>

fun vaciar :: "run_info list \<Rightarrow> run list \<Rightarrow> run list" where
  "vaciar [] rs = rs"
| "vaciar (info # resto) rs = vaciar resto (set_run_text (run_ref info) [] rs)"

text \<open>
  The redistribution (the \<open>if len(runs_info) == 1 ... else ...\<close> of the walker). In
  the second branch \<open>runs_info[0]\<close> raises IndexError on an empty list.
\<close>

definition redistribuir :: "run_info list \<Rightarrow> string \<Rightarrow> run list \<Rightarrow> exn + run list" where
  "redistribuir runs_info texto_traducido rs =
     (if length runs_info = 1
      then Inr (set_run_text (run_ref (runs_info ! 0)) texto_traducido rs)
      else (case runs_info of
              [] \<Rightarrow> Inl IndexError
            | info0 # resto \<Rightarrow>
                Inr (vaciar resto (set_run_text (run_ref info0) texto_traducido rs))))"

text \<open>
  The body of \<open>for parrafo in forma.text_frame.paragraphs\<close>. The result is the
  exception that leaves the body, if any, the paragraph as it is then, and the world.
  When the translation is \<open>None\<close> the body prints a warning before \<open>continue\<close>.
\<close>

definition mensaje_se_mantuvo :: "string \<Rightarrow> string" where
  "mensaje_se_mantuvo texto_completo =
     ''Advertencia: Se mantuvo el texto original '' @ [CHR 0x27] @ texto_completo @ [CHR 0x27]
     @ '' debido a un error de traducci'' @ [CHR 0xF3] @ ''n.''"

definition procesar_parrafo :: "env \<Rightarrow> string \<Rightarrow> string \<Rightarrow> string \<Rightarrow> parrafo \<Rightarrow> world \<Rightarrow> (exn option \<times> parrafo) \<times> world" where
  "procesar_parrafo e idioma_destino idioma_origen metodo p w =
     (if strip (parrafo_text p) = [] then ((None, p), w)
      else
        (case recopilar (runs p) 0 [] [] of
           (runs_info, texto_completo) \<Rightarrow>
             if strip texto_completo = [] then ((None, p), w)
             else
               (case traducir_texto e (Some texto_completo) idioma_destino idioma_origen metodo w of
                  (Inl ex, w') \<Rightarrow> ((Some ex, p), w')
                | (Inr None, w') \<Rightarrow>
                    ((print_raises e (mensaje_se_mantuvo texto_completo), p), w')
                | (Inr (Some texto_traducido), w') \<Rightarrow>
                    (case redistribuir runs_info texto_traducido (runs p) of
                       Inl ex \<Rightarrow> ((Some ex, p), w')
                     | Inr rs \<Rightarrow> ((None, p\<lparr>runs := rs\<rparr>), w')))))"

section \<open>The walker: shapes and slides\<close>

text \<open>
  The paragraphs of one text frame, in order. An exception ends the loop: the
  paragraphs already processed keep their new text, the others are not reached.
\<close>

fun procesar_parrafos :: "env \<Rightarrow> string \<Rightarrow> string \<Rightarrow> string \<Rightarrow> parrafo list \<Rightarrow> world \<Rightarrow> (exn option \<times> parrafo list) \<times> world" where
  "procesar_parrafos e idioma_destino idioma_origen metodo [] w = ((None, []), w)"
| "procesar_parrafos e idioma_destino idioma_origen metodo (p # ps) w =
     (case procesar_parrafo e idioma_destino idioma_origen metodo p w of
        ((Some ex, p'), w') \<Rightarrow> ((Some ex, p' # ps), w')
      | ((None, p'), w') \<Rightarrow>
          (case procesar_parrafos e idioma_destino idioma_origen metodo ps w' of
             ((x, ps'), w'') \<Rightarrow> ((x, p' # ps'), w'')))"

text \<open>
  One shape. The handler \<open>except Exception\<close> around the paragraphs ends in
  \<open>continue\<close>, which passes over the update of the progress bar.
\<close>

definition procesar_forma :: "env \<Rightarrow> string \<Rightarrow> string \<Rightarrow> string \<Rightarrow> shape \<Rightarrow> world \<Rightarrow> shape \<times> world" where
  "procesar_forma e idioma_destino idioma_origen metodo forma w =
     (case text_frame forma of
        None \<Rightarrow> (forma, w\<lparr>progreso := progreso w + 1\<rparr>)
      | Some parrafos \<Rightarrow>
          (case procesar_parrafos e idioma_destino idioma_origen metodo parrafos w of
             ((Some ex, ps), w') \<Rightarrow> (forma\<lparr>text_frame := Some ps\<rparr>, w')
           | ((None, ps), w') \<Rightarrow>
               (forma\<lparr>text_frame := Some ps\<rparr>, w'\<lparr>progreso := progreso w' + 1\<rparr>)))"

fun procesar_formas :: "env \<Rightarrow> string \<Rightarrow> string \<Rightarrow> string \<Rightarrow> shape list \<Rightarrow> world \<Rightarrow> shape list \<times> world" where
  "procesar_formas e idioma_destino idioma_origen metodo [] w = ([], w)"
| "procesar_formas e idioma_destino idioma_origen metodo (forma # formas) w =
     (case procesar_forma e idioma_destino idioma_origen metodo forma w of
        (forma', w') \<Rightarrow>
          (case procesar_formas e idioma_destino idioma_origen metodo formas w' of
             (formas', w'') \<Rightarrow> (forma' # formas', w'')))"

fun procesar_diapositivas :: "env \<Rightarrow> string \<Rightarrow> string \<Rightarrow> string \<Rightarrow> slide list \<Rightarrow> world \<Rightarrow> slide list \<times> world" where
  "procesar_diapositivas e idioma_destino idioma_origen metodo [] w = ([], w)"
| "procesar_diapositivas e idioma_destino idioma_origen metodo (diapositiva # resto) w =
     (case procesar_formas e idioma_destino idioma_origen metodo (shapes diapositiva) w of
        (formas', w') \<Rightarrow>
          (case procesar_diapositivas e idioma_destino idioma_origen metodo resto w' of
             (resto', w'') \<Rightarrow> (diapositiva\<lparr>shapes := formas'\<rparr> # resto', w'')))"

section \<open>The whole presentation: output name and save\<close>

text \<open>
  \<open>strftime("%Y%m%d_%H%M%S")\<close>: the year in four digits, then month, day, hour,
  minute and second in two digits each (a \<open>datetime\<close> has a year of 1 to 9999).
\<close>

definition digit :: "nat \<Rightarrow> char" where
  "digit n = char_of (48 + n mod 10)"

definition two_digits :: "nat \<Rightarrow> string" where
  "two_digits n = [digit (n div 10), digit n]"

definition four_digits :: "nat \<Rightarrow> string" where
  "four_digits n = [digit (n div 1000), digit (n div 100), digit (n div 10), digit n]"

definition strftime :: "datetime \<Rightarrow> string" where
  "strftime t =
     four_digits (dt_year t) @ two_digits (dt_month t) @ two_digits (dt_day t) @ ''_''
     @ two_digits (dt_hour t) @ two_digits (dt_minute t) @ two_digits (dt_second t)"

text \<open>The two names of the output file, and their paths in the output directory.\<close>

definition ruta_traducida :: "env \<Rightarrow> string \<Rightarrow> string \<Rightarrow> string" where
  "ruta_traducida e nombre_sin_extension idioma_destino =
     join e CARPETA_TRADUCIDOS (nombre_sin_extension @ ''_traducido_'' @ idioma_destino @ ''.pptx'')"

definition archivo_alternativo :: "string \<Rightarrow> string \<Rightarrow> string \<Rightarrow> string" where
  "archivo_alternativo nombre_sin_extension idioma_destino timestamp =
     nombre_sin_extension @ ''_traducido_'' @ idioma_destino @ ''_'' @ timestamp @ ''.pptx''"

definition ruta_alternativa :: "env \<Rightarrow> string \<Rightarrow> string \<Rightarrow> string \<Rightarrow> string" where
  "ruta_alternativa e nombre_sin_extension idioma_destino timestamp =
     join e CARPETA_TRADUCIDOS (archivo_alternativo nombre_sin_extension idioma_destino timestamp)"

text \<open>The messages of \<open>traducir_presentacion\<close> (lines 180, 255 and 266, 263, 269, 273).\<close>

definition mensaje_en_uso :: "string \<Rightarrow> string" where
  "mensaje_en_uso archivo_traducido =
     ''El archivo original est'' @ [CHR 0xE1] @ '' en uso. Se usar'' @ [CHR 0xE1]
     @ '' un nombre alternativo: '' @ archivo_traducido"

definition mensaje_guardada :: "string \<Rightarrow> string" where
  "mensaje_guardada ruta_archivo_traducido =
     [CHR 0x0A] @ ''Presentaci'' @ [CHR 0xF3] @ ''n traducida guardada como: ''
     @ ruta_archivo_traducido"

definition mensaje_no_se_pudo :: "string \<Rightarrow> string" where
  "mensaje_no_se_pudo archivo_traducido =
     ''No se pudo guardar el archivo. Intentando con un nombre alternativo: '' @ archivo_traducido"

definition mensaje_error_guardar :: string where
  "mensaje_error_guardar =
     ''Error al guardar la presentaci'' @ [CHR 0xF3] @ ''n con nombre alternativo: ''"

definition mensaje_error_procesar :: string where
  "mensaje_error_procesar = ''Error al procesar la presentaci'' @ [CHR 0xF3] @ ''n: ''"

text \<open>
  The check before the pass (\<open>if os.path.exists(ruta_archivo_traducido): ...\<close>):
  the path the save will use, or the exception that leaves the check: what \<open>open\<close>
  raises when it is not a PermissionError, or what the message of the handler raises.
\<close>

definition elegir_ruta :: "env \<Rightarrow> string \<Rightarrow> string \<Rightarrow> world \<Rightarrow> exn + string" where
  "elegir_ruta e nombre_sin_extension idioma_destino w =
     (let ruta_archivo_traducido = ruta_traducida e nombre_sin_extension idioma_destino in
      if path_exists e w ruta_archivo_traducido then
        (case open_append e w ruta_archivo_traducido of
           None \<Rightarrow> Inr ruta_archivo_traducido
         | Some ex \<Rightarrow>
             if ex = PermissionError
             then
               (let timestamp = strftime (now e w);
                    archivo_traducido = archivo_alternativo nombre_sin_extension idioma_destino timestamp
                in case print_raises e (mensaje_en_uso archivo_traducido) of
                     Some ex2 \<Rightarrow> Inl ex2
                   | None \<Rightarrow> Inr (join e CARPETA_TRADUCIDOS archivo_traducido))
             else Inl ex)
      else Inr ruta_archivo_traducido)"

text \<open>\<open>presentacion.save(ruta)\<close>: it raises, or the file is written.\<close>

definition save :: "env \<Rightarrow> presentation \<Rightarrow> string \<Rightarrow> world \<Rightarrow> exn option \<times> world" where
  "save e presentacion ruta w =
     (case save_raises e w presentacion ruta of
        Some ex \<Rightarrow> (Some ex, record_event (Save ruta (Some ex)) w)
      | None \<Rightarrow>
          (None, (record_event (Save ruta None) w)
                   \<lparr>files := (files w)(abspath e ruta \<mapsto> to_bytes e presentacion)\<rparr>))"

text \<open>
  The body of both inner \<open>try\<close> blocks: \<open>presentacion.save(ruta)\<close>, the message
  \<open>Presentacion traducida guardada como\<close>, \<open>return ruta\<close>. The save or the message
  may raise.
\<close>

definition guardar_try :: "env \<Rightarrow> presentation \<Rightarrow> string \<Rightarrow> world \<Rightarrow> (exn + string option) \<times> world" where
  "guardar_try e presentacion ruta w =
     (case save e presentacion ruta w of
        (Some ex, w1) \<Rightarrow> (Inl ex, w1)
      | (None, w1) \<Rightarrow>
          (case print_raises e (mensaje_guardada ruta) of
             Some ex \<Rightarrow> (Inl ex, w1)
           | None \<Rightarrow> (Inr (Some ruta), w1)))"

text \<open>
  The save step. The handler of the first \<open>try\<close> catches PermissionError only: it
  prints, then tries once more under the name with a timestamp. The handler of the
  second \<open>try\<close> catches every exception: it prints and returns \<open>None\<close>. An
  exception that a handler's message raises leaves the step, as does an exception of
  the first \<open>try\<close> that is not a PermissionError.
\<close>

definition guardar :: "env \<Rightarrow> presentation \<Rightarrow> string \<Rightarrow> string \<Rightarrow> string \<Rightarrow> world \<Rightarrow> (exn + string option) \<times> world" where
  "guardar e presentacion nombre_sin_extension idioma_destino ruta_archivo_traducido w =
     (case guardar_try e presentacion ruta_archivo_traducido w of
        (Inr ruta, w1) \<Rightarrow> (Inr ruta, w1)
      | (Inl ex, w1) \<Rightarrow>
          if ex = PermissionError then
            (let timestamp = strftime (now e w1);
                 archivo_traducido = archivo_alternativo nombre_sin_extension idioma_destino timestamp;
                 ruta2 = join e CARPETA_TRADUCIDOS archivo_traducido
             in case print_raises e (mensaje_no_se_pudo archivo_traducido) of
                  Some ex1 \<Rightarrow> (Inl ex1, w1)
                | None \<Rightarrow>
                    (case guardar_try e presentacion ruta2 w1 of
                       (Inr ruta, w2) \<Rightarrow> (Inr ruta, w2)
                     | (Inl ex2, w2) \<Rightarrow>
                         (case print_raises e mensaje_error_guardar of
                            Some ex3 \<Rightarrow> (Inl ex3, w2)
                          | None \<Rightarrow> (Inr None, w2))))
          else (Inl ex, w1))"

text \<open>
  The body of the outer \<open>try\<close> of \<open>traducir_presentacion\<close>, then the function with
  its handler \<open>except Exception\<close>, which prints and returns \<open>None\<close>: the message is
  under no \<open>try\<close>, so an exception it raises leaves the function. The total of the
  progress bar is display only and is left out.
\<close>

definition traducir_presentacion_try :: "env \<Rightarrow> string \<Rightarrow> string \<Rightarrow> string \<Rightarrow> string \<Rightarrow> world \<Rightarrow> (exn + string option) \<times> world" where
  "traducir_presentacion_try e ruta_archivo idioma_destino idioma_origen metodo w =
     (case Presentation e w ruta_archivo of
        Inl ex \<Rightarrow> (Inl ex, w)
      | Inr presentacion \<Rightarrow>
          (let nombre_base = basename e ruta_archivo;
               nombre_sin_extension = fst (splitext e nombre_base)
           in case elegir_ruta e nombre_sin_extension idioma_destino w of
                Inl ex \<Rightarrow> (Inl ex, w)
              | Inr ruta_archivo_traducido \<Rightarrow>
                  (case procesar_diapositivas e idioma_destino idioma_origen metodo
                          (slides presentacion) w of
                     (diapositivas, w1) \<Rightarrow>
                       guardar e (presentacion\<lparr>slides := diapositivas\<rparr>)
                         nombre_sin_extension idioma_destino ruta_archivo_traducido w1)))"

definition traducir_presentacion :: "env \<Rightarrow> string \<Rightarrow> string \<Rightarrow> string \<Rightarrow> string \<Rightarrow> world \<Rightarrow> (exn + string option) \<times> world" where
  "traducir_presentacion e ruta_archivo idioma_destino idioma_origen metodo w =
     (case traducir_presentacion_try e ruta_archivo idioma_destino idioma_origen metodo w of
        (Inl ex, w') \<Rightarrow>
          (case print_raises e mensaje_error_procesar of
             Some ex2 \<Rightarrow> (Inl ex2, w')
           | None \<Rightarrow> (Inr None, w'))
      | (Inr ruta, w') \<Rightarrow> (Inr ruta, w'))"

section \<open>The archive copy and the command line\<close>

text \<open>
  \<open>mover_a_originales\<close>. \<open>shutil.copy2\<close> raises, or the destination holds the bytes
  of the source. The function has no handler: an exception of the copy, or of the
  message after it, leaves it.
\<close>

definition mensaje_copiado :: "string \<Rightarrow> string" where
  "mensaje_copiado nueva_ruta = ''Archivo copiado a: '' @ nueva_ruta"

definition mover_a_originales :: "env \<Rightarrow> string \<Rightarrow> world \<Rightarrow> (exn + string) \<times> world" where
  "mover_a_originales e ruta_archivo w =
     (if dirname e (abspath e ruta_archivo) = abspath e CARPETA_ORIGINALES
      then (Inr ruta_archivo, w)
      else
        (let nombre_archivo = basename e ruta_archivo;
             nueva_ruta = join e CARPETA_ORIGINALES nombre_archivo
         in case copy2_raises e w ruta_archivo nueva_ruta of
              Some ex \<Rightarrow> (Inl ex, record_event (Copy2 ruta_archivo nueva_ruta (Some ex)) w)
            | None \<Rightarrow>
                (case print_raises e (mensaje_copiado nueva_ruta) of
                   Some ex \<Rightarrow> Inl ex
                 | None \<Rightarrow> Inr nueva_ruta,
                 (record_event (Copy2 ruta_archivo nueva_ruta None) w)
                   \<lparr>files := (files w)(abspath e nueva_ruta := files w (abspath e ruta_archivo))\<rparr>)))"

text \<open>
  The messages of \<open>mostrar_ayuda\<close> and of \<open>main\<close>.
\<close>

definition texto_ayuda :: string where
  "texto_ayuda =
     [CHR 0x0A] @ concat (map (\<lambda>linea. linea @ [CHR 0x0A])
       [''Uso: python traductor_ppt.py <archivo_powerpoint> <idioma_destino> [idioma_origen] [metodo_traduccion]'',
        [],
        ''Argumentos:'',
        ''  archivo_powerpoint   Ruta al archivo PowerPoint a traducir'',
        ''  idioma_destino       C'' @ [CHR 0xF3] @ ''digo del idioma de destino (ej: '' @ [CHR 0x27] @ ''en''
          @ [CHR 0x27] @ '' para ingl'' @ [CHR 0xE9] @ ''s)'',
        ''  idioma_origen        (Opcional) C'' @ [CHR 0xF3] @ ''digo del idioma de origen (por defecto ''
          @ [CHR 0x27] @ ''auto'' @ [CHR 0x27] @ '' para detecci'' @ [CHR 0xF3] @ ''n autom'' @ [CHR 0xE1]
          @ ''tica)'',
        ''  metodo_traduccion    (Opcional) M'' @ [CHR 0xE9] @ ''todo de traducci'' @ [CHR 0xF3] @ ''n (''
          @ [CHR 0x27] @ ''google'' @ [CHR 0x27] @ '' o '' @ [CHR 0x27] @ ''openai'' @ [CHR 0x27]
          @ '', por defecto '' @ [CHR 0x27] @ ''google'' @ [CHR 0x27] @ '')'',
        [],
        ''Ejemplos:'',
        ''  python traductor_ppt.py presentacion.pptx en es'',
        ''  python traductor_ppt.py presentacion.pptx fr auto'',
        ''  python traductor_ppt.py presentacion.pptx en es openai'',
        [],
        ''Nota: Para usar OpenAI, debes tener una clave de API v'' @ [CHR 0xE1]
          @ ''lida en un archivo .env con la variable OPENAI_API_KEY''])"

definition mostrar_ayuda :: "env \<Rightarrow> exn option" where
  "mostrar_ayuda e = print_raises e texto_ayuda"

definition mensaje_metodo :: "string \<Rightarrow> string" where
  "mensaje_metodo metodo_traduccion =
     ''Error: El m'' @ [CHR 0xE9] @ ''todo de traducci'' @ [CHR 0xF3] @ ''n '' @ [CHR 0x27]
     @ metodo_traduccion @ [CHR 0x27] @ '' no es v'' @ [CHR 0xE1] @ ''lido. Debe ser '' @ [CHR 0x27]
     @ ''google'' @ [CHR 0x27] @ '' o '' @ [CHR 0x27] @ ''openai'' @ [CHR 0x27] @ ''.''"

definition mensaje_no_existe :: "string \<Rightarrow> string" where
  "mensaje_no_existe ruta_archivo =
     ''Error: El archivo '' @ [CHR 0x27] @ ruta_archivo @ [CHR 0x27] @ '' no existe.''"

definition mensaje_no_powerpoint :: string where
  "mensaje_no_powerpoint =
     ''Error: El archivo debe ser una presentaci'' @ [CHR 0xF3] @ ''n PowerPoint (.pptx o .ppt).''"

definition mensaje_sin_clave :: string where
  "mensaje_sin_clave =
     ''Error: Para usar OpenAI, debes tener una clave de API v'' @ [CHR 0xE1]
     @ ''lida en un archivo .env con la variable OPENAI_API_KEY.''"

definition mensaje_traduciendo :: "string \<Rightarrow> string \<Rightarrow> string \<Rightarrow> string \<Rightarrow> string" where
  "mensaje_traduciendo ruta_archivo idioma_origen idioma_destino metodo_traduccion =
     ''Traduciendo '' @ [CHR 0x27] @ ruta_archivo @ [CHR 0x27] @ '' de '' @ [CHR 0x27] @ idioma_origen
     @ [CHR 0x27] @ '' a '' @ [CHR 0x27] @ idioma_destino @ [CHR 0x27] @ '' usando el m'' @ [CHR 0xE9]
     @ ''todo '' @ [CHR 0x27] @ metodo_traduccion @ [CHR 0x27] @ ''...''"

text \<open>
  \<open>main\<close>, on \<open>sys.argv\<close>. It returns nothing; the result is the exception that leaves
  it, if any, and the world. No call of \<open>main\<close> is under a \<open>try\<close>.
\<close>

definition main :: "env \<Rightarrow> string list \<Rightarrow> world \<Rightarrow> exn option \<times> world" where
  "main e argv w =
     (if length argv < 3 \<or> argv ! 1 \<in> {''-h'', ''--help''} then (mostrar_ayuda e, w)
      else
        (let ruta_archivo = argv ! 1;
             idioma_destino = argv ! 2;
             idioma_origen = (if length argv > 3 then argv ! 3 else ''auto'');
             metodo_traduccion = (if length argv > 4 then argv ! 4 else ''google'')
         in if metodo_traduccion \<notin> {''google'', ''openai''}
              then (print_raises e (mensaje_metodo metodo_traduccion), w)
            else if \<not> path_exists e w ruta_archivo
              then (print_raises e (mensaje_no_existe ruta_archivo), w)
            else if \<not> (endswith (lower ruta_archivo) ''.pptx'' \<or> endswith (lower ruta_archivo) ''.ppt'')
              then (print_raises e mensaje_no_powerpoint, w)
            else if metodo_traduccion = ''openai'' \<and> falsy (getenv e ''OPENAI_API_KEY'')
              then (print_raises e mensaje_sin_clave, w)
            else
              (case mover_a_originales e ruta_archivo w of
                 (Inl ex, w1) \<Rightarrow> (Some ex, w1)
               | (Inr ruta, w1) \<Rightarrow>
                   (case print_raises e
                           (mensaje_traduciendo ruta idioma_origen idioma_destino metodo_traduccion) of
                      Some ex \<Rightarrow> (Some ex, w1)
                    | None \<Rightarrow>
                        (case traducir_presentacion e ruta idioma_destino idioma_origen
                                metodo_traduccion w1 of
                           (Inl ex, w2) \<Rightarrow> (Some ex, w2)
                         | (Inr r, w2) \<Rightarrow> (None, w2))))))"

section \<open>Observations on a run of the script\<close>

text \<open>
  What the theorems read off a world: the save attempts of a trace, in order, each
  with its path and the exception it raised (\<open>None\<close>: the file was written), and
  the calls of the translation backends.
\<close>

fun saves :: "event list \<Rightarrow> (string \<times> exn option) list" where
  "saves [] = []"
| "saves (Save ruta r # evs) = (ruta, r) # saves evs"
| "saves (ev # evs) = saves evs"

fun backend_calls :: "event list \<Rightarrow> event list" where
  "backend_calls [] = []"
| "backend_calls (GoogleTranslate a b c # evs) = GoogleTranslate a b c # backend_calls evs"
| "backend_calls (ChatCompletionsCreate ms # evs) = ChatCompletionsCreate ms # backend_calls evs"
| "backend_calls (ev # evs) = backend_calls evs"




text \<open>
  The positions of the runs that the aggregation keeps, as \<open>recopilar\<close> computes
  them, and the text it builds.
\<close>

definition retenidos :: "parrafo \<Rightarrow> nat list" where
  "retenidos p = map run_ref (fst (recopilar (runs p) 0 [] []))"

definition texto_completo_de :: "parrafo \<Rightarrow> string" where
  "texto_completo_de p = snd (recopilar (runs p) 0 [] [])"

section \<open>Concrete inputs\<close>

text \<open>
  \<open>os.path\<close> on a POSIX system (\<open>posixpath\<close>): \<open>basename\<close> is what follows the last
  slash; \<open>dirname\<close> is what precedes it, without trailing slashes unless it is made of
  slashes only; \<open>join\<close> puts one slash between its parts unless the second is
  absolute; \<open>splitext\<close> splits at the last dot of the last component, unless only dots
  precede it there. \<open>abspath\<close> is given for a path with no \<open>.\<close> or \<open>..\<close> component
  and no doubled slash, in the working directory \<open>/srv/ppt\<close>.
\<close>

definition posix_basename :: "string \<Rightarrow> string" where
  "posix_basename p = rev (takeWhile (\<lambda>c. c \<noteq> CHR ''/'') (rev p))"

definition posix_dirname :: "string \<Rightarrow> string" where
  "posix_dirname p =
     (let head = rev (dropWhile (\<lambda>c. c \<noteq> CHR ''/'') (rev p)) in
      if head \<noteq> [] \<and> head \<noteq> replicate (length head) (CHR ''/'')
      then rev (dropWhile (\<lambda>c. c = CHR ''/'') (rev head)) else head)"

definition posix_join :: "string \<Rightarrow> string \<Rightarrow> string" where
  "posix_join a b =
     (if b \<noteq> [] \<and> hd b = CHR ''/'' then b
      else if a = [] \<or> last a = CHR ''/'' then a @ b
      else a @ ''/'' @ b)"

definition posix_splitext :: "string \<Rightarrow> string \<times> string" where
  "posix_splitext p =
     (let ext = rev (takeWhile (\<lambda>c. c \<noteq> CHR ''.'') (rev p));
          root = take (length p - length ext - 1) p
      in if CHR ''.'' \<in> set p \<and> CHR ''/'' \<notin> set ext
            \<and> posix_basename root \<noteq> replicate (length (posix_basename root)) (CHR ''.'')
         then (root, drop (length root) p) else (p, []))"

definition posix_abspath :: "string \<Rightarrow> string" where
  "posix_abspath p = (if p \<noteq> [] \<and> hd p = CHR ''/'' then p else ''/srv/ppt/'' @ p)"

text \<open>
  A presentation of one slide: a shape with no text frame, and a shape whose text
  frame holds the paragraph \<open>Hello \<close>, \<open>world\<close> and a paragraph of blanks.
\<close>

definition parrafo_hello :: parrafo where
  "parrafo_hello =
     \<lparr>runs = [\<lparr>run_text = ''Hello '', rPr = ''b''\<rparr>, \<lparr>run_text = ''world'', rPr = ''i''\<rparr>]\<rparr>"

definition parrafo_blanco :: parrafo where
  "parrafo_blanco =
     \<lparr>runs = [\<lparr>run_text = '' '', rPr = ''b''\<rparr>, \<lparr>run_text = ''  '', rPr = ''u''\<rparr>]\<rparr>"

definition parrafo_tres :: parrafo where
  "parrafo_tres =
     \<lparr>runs = [\<lparr>run_text = ''Hello'', rPr = ''b''\<rparr>, \<lparr>run_text = '' '', rPr = ''u''\<rparr>,
              \<lparr>run_text = ''world'', rPr = ''i''\<rparr>]\<rparr>"

definition parrafo_hueco :: parrafo where
  "parrafo_hueco =
     \<lparr>runs = [\<lparr>run_text = ''Hello '', rPr = ''b''\<rparr>, \<lparr>run_text = [], rPr = ''u''\<rparr>,
              \<lparr>run_text = ''world'', rPr = ''i''\<rparr>]\<rparr>"

definition presentacion_demo :: presentation where
  "presentacion_demo =
     \<lparr>slides = [\<lparr>shapes = [\<lparr>text_frame = None\<rparr>,
                           \<lparr>text_frame = Some [parrafo_hello, parrafo_blanco]\<rparr>]\<rparr>]\<rparr>"

definition mundo0 :: world where
  "mundo0 = \<lparr>trace = [], files = [''/srv/ppt/charla.PPTX'' \<mapsto> ''PK-charla''], progreso = 0\<rparr>"

definition mundo1 :: world where
  "mundo1 =
     \<lparr>trace = [], files = [''/srv/ppt/originales/charla.PPTX'' \<mapsto> ''PK-charla''], progreso = 0\<rparr>"

text \<open>
  An environment where everything answers: the web backend knows two sentences and
  returns \<open>None\<close> for the rest, the chat backend answers with blanks around its text,
  nothing is locked, stdout encodes every character (as UTF-8 does). In \<open>env_caido\<close>
  both backends raise. In \<open>env_no_abre\<close> no file opens as a presentation. In
  \<open>env_en_uso\<close> the output file exists and is locked, and the first save raises
  PermissionError.
\<close>

definition env_demo :: env where
  "env_demo =
     \<lparr>google_translate = (\<lambda>w origen destino texto.
          if texto = ''Hello world'' then Inr (Some ''Hola mundo'')
          else if texto = ''Helloworld'' then Inr (Some ''Holamundo'')
          else Inr None),
      chat_completions_create = (\<lambda>w ms. Inr (ChatCompletion [Some '' Hola mundo ''])),
      Presentation = (\<lambda>w ruta. Inr presentacion_demo),
      save_raises = (\<lambda>w p ruta. None),
      copy2_raises = (\<lambda>w origen destino. None),
      to_bytes = (\<lambda>p. ''PK''),
      path_exists = (\<lambda>w ruta. files w (posix_abspath ruta) \<noteq> None),
      open_append = (\<lambda>w ruta. None),
      now = (\<lambda>w. \<lparr>dt_year = 2024, dt_month = 3, dt_day = 9, dt_hour = 14, dt_minute = 5,
                    dt_second = (30 + length (trace w)) mod 60\<rparr>),
      getenv = (\<lambda>k. None),
      basename = posix_basename,
      splitext = posix_splitext,
      join = posix_join,
      dirname = posix_dirname,
      abspath = posix_abspath,
      stdout_encodes = (\<lambda>c. True)\<rparr>"

definition env_caido :: env where
  "env_caido =
     env_demo\<lparr>google_translate := (\<lambda>w origen destino texto. Inl (OtherError ''RequestError'')),
              chat_completions_create := (\<lambda>w ms. Inl (OtherError ''APIConnectionError''))\<rparr>"

text \<open>
  In \<open>env_vt\<close> the web backend answers a text with a vertical tab. In \<open>env_ascii\<close>
  stdout encodes ASCII only. In \<open>env_cp437\<close> stdout encodes the letters of the
  messages but not the letter a with tilde (code point 227), as code page 437 does.
  \<open>ruta_sao\<close> is the file name \<open>S\<close>, a with tilde, \<open>o.pptx\<close>.
\<close>

definition texto_vt :: string where
  "texto_vt = [CHR ''a'', CHR 0x0B, CHR ''b'']"

definition env_vt :: env where
  "env_vt = env_demo\<lparr>google_translate := (\<lambda>w origen destino texto. Inr (Some texto_vt))\<rparr>"

definition env_ascii :: env where
  "env_ascii = env_demo\<lparr>stdout_encodes := (\<lambda>c. False)\<rparr>"

definition env_cp437 :: env where
  "env_cp437 = env_demo\<lparr>stdout_encodes := (\<lambda>c. c \<noteq> CHR 0xE3)\<rparr>"

definition ruta_sao :: string where
  "ruta_sao = [CHR ''S'', CHR 0xE3, CHR ''o''] @ ''.pptx''"

definition env_no_abre :: env where
  "env_no_abre = env_demo\<lparr>Presentation := (\<lambda>w ruta. Inl (OtherError ''PackageNotFoundError''))\<rparr>"


section \<open>Whitespace and aggregation\<close>

lemma dropWhile_all_iff: "(\<forall>x\<in>set (dropWhile P xs). P x) \<longleftrightarrow> (\<forall>x\<in>set xs. P x)"
  by (induction xs) auto

lemma strip_empty_iff: "strip s = [] \<longleftrightarrow> (\<forall>c\<in>set s. isspace c)"
  unfolding strip_def by (simp add: dropWhile_eq_Nil_conv dropWhile_all_iff)

lemma strip_append_nonempty:
  "strip b \<noteq> [] \<Longrightarrow> strip (a @ b @ c) \<noteq> []"
  by (auto simp: strip_empty_iff)

lemma strip_concat_nonempty:
  "x \<in> set xs \<Longrightarrow> strip x \<noteq> [] \<Longrightarrow> strip (concat xs) \<noteq> []"
  by (auto simp: strip_empty_iff)

lemma recopilar_eq:
  "recopilar rs i infos tc =
     (infos @ map (\<lambda>(j, r). \<lparr>run_ref = j, texto_original = run_text r\<rparr>)
                (filter (\<lambda>(j, r). strip (run_text r) \<noteq> []) (enumerate i rs)),
      tc @ concat (map (\<lambda>(j, r). run_text r)
                (filter (\<lambda>(j, r). strip (run_text r) \<noteq> []) (enumerate i rs))))"
  by (induction rs arbitrary: i infos tc) simp_all

lemma filter_enumerate_fst:
  "map fst (filter (\<lambda>(j, r). P r) (enumerate 0 rs)) = filter (\<lambda>j. P (rs ! j)) [0..<length rs]"
proof (induction rs rule: rev_induct)
  case Nil
  then show ?case by simp
next
  case (snoc x xs)
  have "filter (\<lambda>j. P ((xs @ [x]) ! j)) [0..<length xs] = filter (\<lambda>j. P (xs ! j)) [0..<length xs]"
    by (rule filter_cong) (auto simp: nth_append)
  with snoc show ?case by (simp add: enumerate_append_eq)
qed

lemma filter_enumerate_snd:
  "map snd (filter (\<lambda>(j, r). P r) (enumerate i rs)) = filter P rs"
  by (induction rs arbitrary: i) auto

lemma retenidos_eq:
  "retenidos p = filter (\<lambda>j. strip (run_text (runs p ! j)) \<noteq> []) [0..<length (runs p)]"
proof -
  have "retenidos p = map fst (filter (\<lambda>(j, r). strip (run_text r) \<noteq> []) (enumerate 0 (runs p)))"
    by (simp add: retenidos_def recopilar_eq case_prod_unfold comp_def)
  then show ?thesis by (simp add: filter_enumerate_fst)
qed

lemma texto_completo_de_eq:
  "texto_completo_de p = concat (map run_text (filter (\<lambda>r. strip (run_text r) \<noteq> []) (runs p)))"
proof -
  have "texto_completo_de p
        = concat (map run_text (map snd (filter (\<lambda>(j, r). strip (run_text r) \<noteq> []) (enumerate 0 (runs p)))))"
    by (simp add: texto_completo_de_def recopilar_eq case_prod_unfold comp_def)
  then show ?thesis by (simp only: filter_enumerate_snd)
qed


lemma set_run_text_length: "length (set_run_text j t rs) = length rs"
  by (simp add: set_run_text_def)

lemma escape_ctrl_chars_Nil: "escape_ctrl_chars [] = []"
  by (simp add: escape_ctrl_chars_def)

lemma set_run_text_nth:
  "i < length rs \<Longrightarrow>
   set_run_text j t rs ! i =
     (if i = j then (rs ! i)\<lparr>run_text := escape_ctrl_chars t\<rparr> else rs ! i)"
  by (simp add: set_run_text_def)

lemma set_run_text_rPr: "map rPr (set_run_text j t rs) = map rPr rs"
  by (rule nth_equalityI) (simp_all add: set_run_text_length set_run_text_nth)

lemma vaciar_length: "length (vaciar infos rs) = length rs"
  by (induction infos arbitrary: rs) (simp_all add: set_run_text_length)

lemma vaciar_rPr: "map rPr (vaciar infos rs) = map rPr rs"
  by (induction infos arbitrary: rs) (simp_all add: set_run_text_rPr)

lemma vaciar_nth:
  "i < length rs \<Longrightarrow>
   vaciar infos rs ! i =
     (if i \<in> run_ref ` set infos then (rs ! i)\<lparr>run_text := []\<rparr> else rs ! i)"
  by (induction infos arbitrary: rs)
     (auto simp: set_run_text_length set_run_text_nth escape_ctrl_chars_Nil)

lemma redistribuir_Cons:
  "redistribuir (info0 # resto) t rs = Inr (vaciar resto (set_run_text (run_ref info0) t rs))"
  by (cases resto) (simp_all add: redistribuir_def)

lemma redistribuir_shape:
  assumes "redistribuir infos t rs = Inr rs'"
  shows "length rs' = length rs \<and> map rPr rs' = map rPr rs"
proof (cases infos)
  case Nil
  with assms show ?thesis by (simp add: redistribuir_def)
next
  case (Cons info0 resto)
  with assms have "rs' = vaciar resto (set_run_text (run_ref info0) t rs)"
    by (simp add: redistribuir_Cons)
  then show ?thesis
    by (simp add: vaciar_length vaciar_rPr set_run_text_length set_run_text_rPr)
qed

lemma retenidos_nonblank:
  "i \<in> set (retenidos p) \<longleftrightarrow> i < length (runs p) \<and> strip (run_text (runs p ! i)) \<noteq> []"
  by (auto simp: retenidos_eq)

lemma retenidos_distinct: "distinct (retenidos p)"
  by (simp add: retenidos_eq)

lemma parrafo_text_nonblank:
  assumes "i \<in> set (retenidos p)"
  shows "strip (parrafo_text p) \<noteq> []" and "strip (texto_completo_de p) \<noteq> []"
proof -
  from assms have i: "i < length (runs p)" and nb: "strip (run_text (runs p ! i)) \<noteq> []"
    by (simp_all add: retenidos_nonblank)
  from i have "run_text (runs p ! i) \<in> set (map run_text (runs p))" by simp
  then show "strip (parrafo_text p) \<noteq> []"
    unfolding parrafo_text_def using nb by (rule strip_concat_nonempty)
  from i nb have "runs p ! i \<in> set (filter (\<lambda>r. strip (run_text r) \<noteq> []) (runs p))" by simp
  then have "run_text (runs p ! i) \<in> set (map run_text (filter (\<lambda>r. strip (run_text r) \<noteq> []) (runs p)))"
    by (simp only: set_map) (rule imageI)
  then show "strip (texto_completo_de p) \<noteq> []"
    unfolding texto_completo_de_eq using nb by (rule strip_concat_nonempty)
qed

lemma recopilar_retenidos:
  "recopilar (runs p) 0 [] [] = (infos, tc) \<Longrightarrow>
   map run_ref infos = retenidos p \<and> tc = texto_completo_de p"
  by (simp add: retenidos_def texto_completo_de_def)

lemma procesar_parrafo_traducido:
  assumes ret: "retenidos p = i0 # resto"
    and tr: "traducir_texto e (Some (texto_completo_de p)) idioma_destino idioma_origen metodo w
             = (Inr (Some t), w')"
  shows "\<exists>rs'. procesar_parrafo e idioma_destino idioma_origen metodo p w = ((None, p\<lparr>runs := rs'\<rparr>), w')
           \<and> length rs' = length (runs p)
           \<and> (\<forall>i<length (runs p). rs' ! i =
                (if i = i0 then (runs p ! i)\<lparr>run_text := escape_ctrl_chars t\<rparr>
                 else if i \<in> set resto then (runs p ! i)\<lparr>run_text := []\<rparr>
                 else runs p ! i))"
proof -
  obtain infos tc where rec: "recopilar (runs p) 0 [] [] = (infos, tc)"
    by (cases "recopilar (runs p) 0 [] []")
  then have refs: "map run_ref infos = i0 # resto" and tc: "tc = texto_completo_de p"
    using recopilar_retenidos[OF rec] ret by simp_all
  from refs obtain info0 rest where infos: "infos = info0 # rest"
    and i0: "run_ref info0 = i0" and rest: "map run_ref rest = resto"
    by (cases infos) auto
  have mem: "i0 \<in> set (retenidos p)" by (simp add: ret)
  then have len: "i0 < length (runs p)" by (simp add: retenidos_nonblank)
  have notin: "i0 \<notin> set resto" using retenidos_distinct[of p] by (simp add: ret)
  let ?rs = "vaciar rest (set_run_text i0 t (runs p))"
  have red: "redistribuir infos t (runs p) = Inr ?rs"
    by (simp add: infos redistribuir_Cons i0)
  have run: "procesar_parrafo e idioma_destino idioma_origen metodo p w = ((None, p\<lparr>runs := ?rs\<rparr>), w')"
    using parrafo_text_nonblank[OF mem] tr
    by (simp add: procesar_parrafo_def rec tc red)
  have nth: "?rs ! i =
        (if i = i0 then (runs p ! i)\<lparr>run_text := escape_ctrl_chars t\<rparr>
         else if i \<in> set resto then (runs p ! i)\<lparr>run_text := []\<rparr>
         else runs p ! i)" if "i < length (runs p)" for i
    using that notin rest[symmetric]
    by (simp add: vaciar_nth set_run_text_length set_run_text_nth)
  show ?thesis
    using run nth by (intro exI[of _ ?rs]) (simp add: vaciar_length set_run_text_length)
qed

section \<open>Redistribution\<close>

lemma concat_single_nonempty:
  assumes "i0 < length xs" and "\<forall>i<length xs. i \<noteq> i0 \<longrightarrow> xs ! i = []"
  shows "concat xs = xs ! i0"
proof -
  have a: "concat (take i0 xs) = []"
    using assms by (auto simp: in_set_conv_nth)
  have b: "concat (drop (Suc i0) xs) = []"
    using assms by (auto simp: in_set_conv_nth)
  have "xs = take i0 xs @ xs ! i0 # drop (Suc i0) xs"
    using assms(1) by (simp add: id_take_nth_drop)
  then have "concat xs = concat (take i0 xs) @ xs ! i0 @ concat (drop (Suc i0) xs)"
    by (metis concat.simps(2) concat_append)
  then show ?thesis unfolding a b by simp
qed

text \<open>A text with no control character to escape is stored as it is.\<close>

lemma escape_ctrl_chars_id:
  "list_all (\<lambda>c. \<not> is_ctrl c) t \<Longrightarrow> escape_ctrl_chars t = t"
  by (induction t) (simp_all add: escape_ctrl_chars_def escape_char_def)

lemma strip_eval:
  "strip ''Hello'' = ''Hello''" "strip '' '' = []" "strip ''world'' = ''world''"
  "strip ''Helloworld'' \<noteq> []" "strip ''Hello '' = ''Hello''" "strip ''  '' = []"
  "strip ''Hello world'' \<noteq> []"
  by (simp_all add: strip_def isspace_def)

lemma no_ctrl_eval:
  "list_all (\<lambda>c. \<not> is_ctrl c) ''Holamundo''" "list_all (\<lambda>c. \<not> is_ctrl c) ''Hola mundo''"
  "list_all (\<lambda>c. \<not> is_ctrl c) ''Hello world''"
  by (simp_all add: is_ctrl_def)

lemma escape_eval:
  "escape_ctrl_chars ''Holamundo'' = ''Holamundo''" "escape_ctrl_chars ''Hola mundo'' = ''Hola mundo''"
  "escape_ctrl_chars ''Hello world'' = ''Hello world''"
  by (rule escape_ctrl_chars_id, rule no_ctrl_eval)+

lemma escape_vt: "escape_ctrl_chars texto_vt = ''a_x000B_b''"
  by (simp add: texto_vt_def escape_ctrl_chars_def escape_char_def is_ctrl_def hex_digit_def
        char_of_def bit_0)

lemma retenidos_tres: "retenidos parrafo_tres = [0, 2]"
  by (simp add: retenidos_def parrafo_tres_def strip_eval)

lemma texto_tres: "texto_completo_de parrafo_tres = ''Helloworld''"
  by (simp add: texto_completo_de_def parrafo_tres_def strip_eval)

lemma traducir_tres:
  "traducir_texto env_demo (Some ''Helloworld'') ''es'' ''auto'' ''google'' mundo0
   = (Inr (Some ''Holamundo''), record_event (GoogleTranslate ''auto'' ''es'' ''Helloworld'') mundo0)"
  by (simp add: traducir_texto_def strip_eval traducir_texto_google_def google_try_def env_demo_def)

lemma retenidos_hello: "retenidos parrafo_hello = [0, 1]"
  by (simp add: retenidos_def parrafo_hello_def strip_eval)

lemma texto_hello: "texto_completo_de parrafo_hello = ''Hello world''"
  by (simp add: texto_completo_de_def parrafo_hello_def strip_eval)

lemma traducir_vt:
  "traducir_texto env_vt (Some ''Hello world'') ''es'' ''auto'' ''google'' mundo0
   = (Inr (Some texto_vt), record_event (GoogleTranslate ''auto'' ''es'' ''Hello world'') mundo0)"
  by (simp add: traducir_texto_def strip_eval traducir_texto_google_def google_try_def env_vt_def
        env_demo_def)

text \<open>
  Claim C1, as stated, fails. The web backend answers the text \<open>a\<close>, vertical tab,
  \<open>b\<close> for the paragraph \<open>Hello \<close>, \<open>world\<close>. The assignment to the first run
  stores \<open>a_x000B_b\<close>: the run's text is not the translated text.
\<close>

theorem C1_stored_text_counterexample:
  "retenidos parrafo_hello = [0, 1]
   \<and> fst (traducir_texto env_vt (Some (texto_completo_de parrafo_hello)) ''es'' ''auto'' ''google'' mundo0)
       = Inr (Some texto_vt)
   \<and> run_text (runs (snd (fst
        (procesar_parrafo env_vt ''es'' ''auto'' ''google'' parrafo_hello mundo0))) ! 0) = ''a_x000B_b''
   \<and> run_text (runs (snd (fst
        (procesar_parrafo env_vt ''es'' ''auto'' ''google'' parrafo_hello mundo0))) ! 0) \<noteq> texto_vt"
proof -
  have rec: "recopilar (runs parrafo_hello) 0 [] []
             = ([\<lparr>run_ref = 0, texto_original = ''Hello ''\<rparr>, \<lparr>run_ref = 1, texto_original = ''world''\<rparr>],
                ''Hello world'')"
    by (simp add: parrafo_hello_def strip_eval)
  have nb: "strip (parrafo_text parrafo_hello) \<noteq> []"
    by (simp add: parrafo_text_def parrafo_hello_def strip_eval)
  have run: "fst (procesar_parrafo env_vt ''es'' ''auto'' ''google'' parrafo_hello mundo0)
        = (None, \<lparr>runs = [\<lparr>run_text = ''a_x000B_b'', rPr = ''b''\<rparr>, \<lparr>run_text = [], rPr = ''i''\<rparr>]\<rparr>)"
    using nb
    by (simp add: procesar_parrafo_def rec strip_eval traducir_vt redistribuir_def set_run_text_def
          escape_vt escape_ctrl_chars_Nil)
       (simp add: parrafo_hello_def)
  show ?thesis
    by (simp add: run retenidos_hello texto_hello traducir_vt) (simp add: texto_vt_def)
qed

text \<open>
  Claim C1, amended. A processed paragraph with at least one retained run, whose
  translation is \<open>t\<close>: the retained runs are the runs whose stripped text is not
  empty, in order; the first of them (\<open>i0\<close>) gets \<open>t\<close> as the library stores it, with
  each control character other than tab and line feed written as \<open>_xHHHH_\<close>, which is
  \<open>t\<close> itself when it has none; every other retained run gets the empty string (none,
  when one run is retained), and a run whose stripped text was empty is left as it was.
\<close>

theorem C1_redistribution:
  assumes "retenidos p = i0 # resto"
    and "traducir_texto e (Some (texto_completo_de p)) idioma_destino idioma_origen metodo w
         = (Inr (Some t), w')"
  shows "i0 # resto = filter (\<lambda>j. strip (run_text (runs p ! j)) \<noteq> []) [0..<length (runs p)]
         \<and> (\<exists>p'. procesar_parrafo e idioma_destino idioma_origen metodo p w = ((None, p'), w')
               \<and> length (runs p') = length (runs p)
               \<and> run_text (runs p' ! i0) = escape_ctrl_chars t
               \<and> (list_all (\<lambda>c. \<not> is_ctrl c) t \<longrightarrow> run_text (runs p' ! i0) = t)
               \<and> (\<forall>i\<in>set resto. run_text (runs p' ! i) = [])
               \<and> (\<forall>i<length (runs p). strip (run_text (runs p ! i)) = [] \<longrightarrow>
                     runs p' ! i = runs p ! i))"
proof -
  from procesar_parrafo_traducido[OF assms] obtain rs' where
    run: "procesar_parrafo e idioma_destino idioma_origen metodo p w = ((None, p\<lparr>runs := rs'\<rparr>), w')"
    and len: "length rs' = length (runs p)"
    and nth: "\<And>i. i < length (runs p) \<Longrightarrow> rs' ! i =
                (if i = i0 then (runs p ! i)\<lparr>run_text := escape_ctrl_chars t\<rparr>
                 else if i \<in> set resto then (runs p ! i)\<lparr>run_text := []\<rparr>
                 else runs p ! i)"
    by blast
  have mem: "i \<in> set (i0 # resto) \<longleftrightarrow> i < length (runs p) \<and> strip (run_text (runs p ! i)) \<noteq> []" for i
    using retenidos_nonblank[of i p] by (simp only: assms(1))
  have dist: "i0 \<notin> set resto" using retenidos_distinct[of p] by (simp add: assms(1))
  have i0: "i0 < length (runs p)" using mem[of i0] by simp
  have a: "run_text (rs' ! i0) = escape_ctrl_chars t" using nth[OF i0] by simp
  have a': "list_all (\<lambda>c. \<not> is_ctrl c) t \<longrightarrow> run_text (rs' ! i0) = t"
    using a by (simp add: escape_ctrl_chars_id)
  have b: "run_text (rs' ! i) = []" if "i \<in> set resto" for i
  proof -
    from that have "i < length (runs p)" using mem[of i] by simp
    moreover from that dist have "i \<noteq> i0" by blast
    ultimately show ?thesis using nth[of i] that by simp
  qed
  have c: "rs' ! i = runs p ! i" if "i < length (runs p)" "strip (run_text (runs p ! i)) = []" for i
  proof -
    from that have "i \<notin> set (i0 # resto)" using mem[of i] by simp
    then show ?thesis using nth[OF that(1)] by simp
  qed
  have "i0 # resto = filter (\<lambda>j. strip (run_text (runs p ! j)) \<noteq> []) [0..<length (runs p)]"
    using assms(1) by (simp add: retenidos_eq)
  moreover have "\<exists>p'. procesar_parrafo e idioma_destino idioma_origen metodo p w = ((None, p'), w')
               \<and> length (runs p') = length (runs p)
               \<and> run_text (runs p' ! i0) = escape_ctrl_chars t
               \<and> (list_all (\<lambda>c. \<not> is_ctrl c) t \<longrightarrow> run_text (runs p' ! i0) = t)
               \<and> (\<forall>i\<in>set resto. run_text (runs p' ! i) = [])
               \<and> (\<forall>i<length (runs p). strip (run_text (runs p ! i)) = [] \<longrightarrow>
                     runs p' ! i = runs p ! i)"
    using run len a a' b c by (intro exI[of _ "p\<lparr>runs := rs'\<rparr>"]) simp
  ultimately show ?thesis by blast
qed

text \<open>
  The paragraph \<open>Hello\<close>, blank, \<open>world\<close>: runs 0 and 2 are retained, and the
  translation has no control character.
\<close>

theorem C1_redistribution_witness:
  "retenidos parrafo_tres = [0, 2]
   \<and> list_all (\<lambda>c. \<not> is_ctrl c) ''Holamundo''
   \<and> (\<exists>p'. procesar_parrafo env_demo ''es'' ''auto'' ''google'' parrafo_tres mundo0
            = ((None, p'), record_event (GoogleTranslate ''auto'' ''es'' ''Helloworld'') mundo0)
          \<and> run_text (runs p' ! 0) = ''Holamundo''
          \<and> run_text (runs p' ! 2) = []
          \<and> runs p' ! 1 = runs parrafo_tres ! 1)"
proof -
  have h: "traducir_texto env_demo (Some (texto_completo_de parrafo_tres)) ''es'' ''auto'' ''google'' mundo0
        = (Inr (Some ''Holamundo''), record_event (GoogleTranslate ''auto'' ''es'' ''Helloworld'') mundo0)"
    by (simp only: texto_tres traducir_tres)
  have blank: "strip (run_text (runs parrafo_tres ! 1)) = []"
    by (simp add: parrafo_tres_def strip_eval)
  have len: "1 < length (runs parrafo_tres)" by (simp add: parrafo_tres_def)
  from C1_redistribution[OF retenidos_tres h] obtain p' where
    "procesar_parrafo env_demo ''es'' ''auto'' ''google'' parrafo_tres mundo0
            = ((None, p'), record_event (GoogleTranslate ''auto'' ''es'' ''Helloworld'') mundo0)"
    "list_all (\<lambda>c. \<not> is_ctrl c) ''Holamundo'' \<longrightarrow> run_text (runs p' ! 0) = ''Holamundo''"
    "\<forall>i\<in>set [2]. run_text (runs p' ! i) = []"
    "\<forall>i<length (runs parrafo_tres). strip (run_text (runs parrafo_tres ! i)) = [] \<longrightarrow>
                     runs p' ! i = runs parrafo_tres ! i"
    by blast
  with blank len no_ctrl_eval(1) show ?thesis
    by (intro conjI exI[of _ p'] retenidos_tres) simp_all
qed

text \<open>
  Claim C2, as stated, fails. In the paragraph \<open>Hello\<close>, blank, \<open>world\<close> the blank
  run is left out of the aggregation and keeps its text: the translation is
  \<open>Holamundo\<close>, and the run texts of the paragraph concatenate to \<open>Holamundo \<close>.
\<close>

theorem C2_concat_counterexample:
  "fst (traducir_texto env_demo (Some (texto_completo_de parrafo_tres)) ''es'' ''auto'' ''google'' mundo0)
     = Inr (Some ''Holamundo'')
   \<and> concat (map run_text (runs (snd (fst
        (procesar_parrafo env_demo ''es'' ''auto'' ''google'' parrafo_tres mundo0))))) = ''Holamundo ''
   \<and> concat (map run_text (runs (snd (fst
        (procesar_parrafo env_demo ''es'' ''auto'' ''google'' parrafo_tres mundo0))))) \<noteq> ''Holamundo''"
proof -
  have rec: "recopilar (runs parrafo_tres) 0 [] []
             = ([\<lparr>run_ref = 0, texto_original = ''Hello''\<rparr>, \<lparr>run_ref = 2, texto_original = ''world''\<rparr>],
                ''Helloworld'')"
    by (simp add: parrafo_tres_def strip_eval)
  have nb: "strip (parrafo_text parrafo_tres) \<noteq> []"
    by (simp add: parrafo_text_def parrafo_tres_def strip_def isspace_def)
  have run: "fst (procesar_parrafo env_demo ''es'' ''auto'' ''google'' parrafo_tres mundo0)
        = (None, \<lparr>runs = [\<lparr>run_text = ''Holamundo'', rPr = ''b''\<rparr>, \<lparr>run_text = '' '', rPr = ''u''\<rparr>,
              \<lparr>run_text = [], rPr = ''i''\<rparr>]\<rparr>)"
    using nb
    by (simp add: procesar_parrafo_def rec strip_eval traducir_tres redistribuir_def set_run_text_def
          escape_eval escape_ctrl_chars_Nil)
       (simp add: parrafo_tres_def)
  show ?thesis
    by (simp add: run texto_tres traducir_tres)
qed

text \<open>
  Claim C2, amended. For a translated paragraph (a retained run exists and the
  translation is \<open>t\<close>), the texts of the retained runs concatenate to \<open>t\<close> as the
  library stores it (each control character other than tab and line feed written as
  \<open>_xHHHH_\<close>), which is \<open>t\<close> itself when it has none; so do the texts of all the runs
  when every run left out of the aggregation has the empty text.
\<close>

theorem C2_concat_retained:
  assumes "retenidos p = i0 # resto"
    and "traducir_texto e (Some (texto_completo_de p)) idioma_destino idioma_origen metodo w
         = (Inr (Some t), w')"
  shows "\<exists>p'. procesar_parrafo e idioma_destino idioma_origen metodo p w = ((None, p'), w')
           \<and> concat (map (\<lambda>i. run_text (runs p' ! i)) (retenidos p)) = escape_ctrl_chars t
           \<and> (list_all (\<lambda>c. \<not> is_ctrl c) t \<longrightarrow>
                concat (map (\<lambda>i. run_text (runs p' ! i)) (retenidos p)) = t)
           \<and> ((\<forall>r\<in>set (runs p). strip (run_text r) = [] \<longrightarrow> run_text r = []) \<longrightarrow>
                concat (map run_text (runs p')) = escape_ctrl_chars t
                \<and> (list_all (\<lambda>c. \<not> is_ctrl c) t \<longrightarrow> concat (map run_text (runs p')) = t))"
proof -
  from procesar_parrafo_traducido[OF assms] obtain rs' where
    run: "procesar_parrafo e idioma_destino idioma_origen metodo p w = ((None, p\<lparr>runs := rs'\<rparr>), w')"
    and len: "length rs' = length (runs p)"
    and nth: "\<And>i. i < length (runs p) \<Longrightarrow> rs' ! i =
                (if i = i0 then (runs p ! i)\<lparr>run_text := escape_ctrl_chars t\<rparr>
                 else if i \<in> set resto then (runs p ! i)\<lparr>run_text := []\<rparr>
                 else runs p ! i)"
    by blast
  have mem: "i \<in> set (i0 # resto) \<longleftrightarrow> i < length (runs p) \<and> strip (run_text (runs p ! i)) \<noteq> []" for i
    using retenidos_nonblank[of i p] by (simp only: assms(1))
  have dist: "i0 \<notin> set resto" using retenidos_distinct[of p] by (simp add: assms(1))
  have i0: "i0 < length (runs p)" using mem[of i0] by simp
  have a: "run_text (rs' ! i0) = escape_ctrl_chars t" using nth[OF i0] by simp
  have b: "run_text (rs' ! i) = []" if "i \<in> set resto" for i
  proof -
    from that have "i < length (runs p)" using mem[of i] by simp
    moreover from that dist have "i \<noteq> i0" by blast
    ultimately show ?thesis using nth[of i] that by simp
  qed
  have "concat (map (\<lambda>i. run_text (rs' ! i)) resto) = []"
    using b by simp
  then have first: "concat (map (\<lambda>i. run_text (rs' ! i)) (retenidos p)) = escape_ctrl_chars t"
    by (simp add: assms(1) a)
  have second: "concat (map run_text rs') = escape_ctrl_chars t"
    if blank: "\<forall>r\<in>set (runs p). strip (run_text r) = [] \<longrightarrow> run_text r = []"
  proof -
    have "map run_text rs' ! i = []" if i: "i < length (map run_text rs')" "i \<noteq> i0" for i
    proof (cases "i \<in> set resto")
      case True
      then show ?thesis using b i len by simp
    next
      case False
      with i have "i \<notin> set (i0 # resto)" by simp
      with i len have s: "strip (run_text (runs p ! i)) = []" using mem[of i] by simp
      from i len have "runs p ! i \<in> set (runs p)" by simp
      with s blank have "run_text (runs p ! i) = []" by blast
      moreover from i len False have "rs' ! i = runs p ! i" using nth[of i] by simp
      ultimately show ?thesis using i by simp
    qed
    then have "concat (map run_text rs') = map run_text rs' ! i0"
      using i0 len by (intro concat_single_nonempty) simp_all
    then show ?thesis using a i0 len by simp
  qed
  have id: "list_all (\<lambda>c. \<not> is_ctrl c) t \<longrightarrow> escape_ctrl_chars t = t"
    by (simp add: escape_ctrl_chars_id)
  show ?thesis
    using run first second id by (intro exI[of _ "p\<lparr>runs := rs'\<rparr>"]) simp
qed

lemma strip_Nil: "strip [] = []"
  by (simp add: strip_def)

lemma retenidos_hueco: "retenidos parrafo_hueco = [0, 2]"
  by (simp add: retenidos_def parrafo_hueco_def strip_eval strip_Nil)

lemma texto_hueco: "texto_completo_de parrafo_hueco = ''Hello world''"
  by (simp add: texto_completo_de_def parrafo_hueco_def strip_eval strip_Nil)

lemma traducir_hello:
  "traducir_texto env_demo (Some ''Hello world'') ''es'' ''auto'' ''google'' mundo0
   = (Inr (Some ''Hola mundo''), record_event (GoogleTranslate ''auto'' ''es'' ''Hello world'') mundo0)"
  by (simp add: traducir_texto_def strip_eval traducir_texto_google_def google_try_def env_demo_def)

text \<open>
  The paragraph \<open>Hello \<close>, empty, \<open>world\<close>: the run left out is empty, and the
  translation has no control character.
\<close>

theorem C2_concat_retained_witness:
  "retenidos parrafo_hueco = [0, 2]
   \<and> list_all (\<lambda>c. \<not> is_ctrl c) ''Hola mundo''
   \<and> concat (map run_text (runs (snd (fst
        (procesar_parrafo env_demo ''es'' ''auto'' ''google'' parrafo_hueco mundo0))))) = ''Hola mundo''"
proof -
  have h: "traducir_texto env_demo (Some (texto_completo_de parrafo_hueco)) ''es'' ''auto'' ''google'' mundo0
        = (Inr (Some ''Hola mundo''), record_event (GoogleTranslate ''auto'' ''es'' ''Hello world'') mundo0)"
    by (simp only: texto_hueco traducir_hello)
  have blank: "\<forall>r\<in>set (runs parrafo_hueco). strip (run_text r) = [] \<longrightarrow> run_text r = []"
    by (simp add: parrafo_hueco_def strip_eval)
  from C2_concat_retained[OF retenidos_hueco h] obtain p' where
    "procesar_parrafo env_demo ''es'' ''auto'' ''google'' parrafo_hueco mundo0
       = ((None, p'), record_event (GoogleTranslate ''auto'' ''es'' ''Hello world'') mundo0)"
    "(\<forall>r\<in>set (runs parrafo_hueco). strip (run_text r) = [] \<longrightarrow> run_text r = []) \<longrightarrow>
        (list_all (\<lambda>c. \<not> is_ctrl c) ''Hola mundo'' \<longrightarrow> concat (map run_text (runs p')) = ''Hola mundo'')"
    by blast
  with blank no_ctrl_eval(2) show ?thesis
    by (simp only: retenidos_hueco fst_conv snd_conv simp_thms)
qed

section \<open>Skipped paragraphs and the shape of a paragraph\<close>

text \<open>
  Claim C5. A paragraph whose text is empty or whitespace only is returned as it is and
  the world is the same: no event is added to the trace (no backend is called) and no
  run is changed.
\<close>

theorem C5_blank_paragraph_skipped:
  assumes "strip (parrafo_text p) = []"
  shows "procesar_parrafo e idioma_destino idioma_origen metodo p w = ((None, p), w)"
  using assms by (simp add: procesar_parrafo_def)

lemma blanco_blank: "strip (parrafo_text parrafo_blanco) = []"
  by (simp add: parrafo_text_def parrafo_blanco_def strip_empty_iff isspace_def)

text \<open>A paragraph of two runs of blanks.\<close>

theorem C5_blank_paragraph_skipped_witness:
  "strip (parrafo_text parrafo_blanco) = []
   \<and> procesar_parrafo env_demo ''es'' ''auto'' ''google'' parrafo_blanco mundo0 = ((None, parrafo_blanco), mundo0)"
  using blanco_blank C5_blank_paragraph_skipped[OF blanco_blank, of env_demo "''es''" "''auto''" "''google''" mundo0]
  by (rule conjI)

lemma procesar_parrafo_cases:
  "snd (fst (procesar_parrafo e idioma_destino idioma_origen metodo p w)) = p
   \<or> (\<exists>infos t rs. redistribuir infos t (runs p) = Inr rs
         \<and> snd (fst (procesar_parrafo e idioma_destino idioma_origen metodo p w)) = p\<lparr>runs := rs\<rparr>)"
  unfolding procesar_parrafo_def
  by (simp split: prod.split sum.split option.split) blast

text \<open>
  Claim C6. Whatever happens to a paragraph (skipped, translated, an exception), it has
  as many runs after as before, and the run at each position keeps its formatting:
  only texts are rewritten.
\<close>

theorem C6_runs_preserved:
  "length (runs (snd (fst (procesar_parrafo e idioma_destino idioma_origen metodo p w)))) = length (runs p)
   \<and> map rPr (runs (snd (fst (procesar_parrafo e idioma_destino idioma_origen metodo p w)))) = map rPr (runs p)"
  using procesar_parrafo_cases[of e idioma_destino idioma_origen metodo p w]
  by (auto dest: redistribuir_shape)

text \<open>The paragraph of three runs, translated.\<close>

theorem C6_runs_preserved_witness:
  "length (runs (snd (fst (procesar_parrafo env_demo ''es'' ''auto'' ''google'' parrafo_tres mundo0)))) = 3
   \<and> map rPr (runs (snd (fst (procesar_parrafo env_demo ''es'' ''auto'' ''google'' parrafo_tres mundo0))))
       = [''b'', ''u'', ''i'']"
  using C6_runs_preserved[of env_demo "''es''" "''auto''" "''google''" parrafo_tres mundo0]
  by (simp add: parrafo_tres_def)

section \<open>The dispatcher and the providers\<close>

text \<open>
  Claim C9. On \<open>None\<close>, the empty string or a whitespace-only string the dispatcher
  returns its input and the world is unchanged (nothing is added to the trace, so no
  backend was called), whatever the languages and the method.
\<close>

theorem C9_blank_text_returned:
  assumes "texto = None \<or> (\<exists>t. texto = Some t \<and> (t = [] \<or> strip t = []))"
  shows "traducir_texto e texto idioma_destino idioma_origen metodo w = (Inr texto, w)"
  using assms by (auto simp: traducir_texto_def)

text \<open>The three kinds of input, with both methods.\<close>

theorem C9_blank_text_returned_witness:
  "traducir_texto env_demo None ''en'' ''es'' ''openai'' mundo0 = (Inr None, mundo0)
   \<and> traducir_texto env_demo (Some []) ''en'' ''es'' ''google'' mundo0 = (Inr (Some []), mundo0)
   \<and> traducir_texto env_demo (Some ''  '') ''en'' ''auto'' ''openai'' mundo0 = (Inr (Some ''  ''), mundo0)"
  using C9_blank_text_returned[of None env_demo "''en''" "''es''" "''openai''" mundo0]
    C9_blank_text_returned[of "Some []" env_demo "''en''" "''es''" "''google''" mundo0]
    C9_blank_text_returned[of "Some ''  ''" env_demo "''en''" "''auto''" "''openai''" mundo0]
  by (simp add: strip_eval)

text \<open>On any other text the dispatcher calls one backend, and the trace records it.\<close>

lemma traducir_texto_calls_backend:
  assumes "strip t \<noteq> []"
  shows "\<exists>call. backend_calls [call] = [call]
           \<and> trace (snd (traducir_texto e (Some t) idioma_destino idioma_origen metodo w)) = trace w @ [call]"
proof -
  from assms have "t \<noteq> []" by (auto simp: strip_def)
  with assms show ?thesis
    by (auto simp: traducir_texto_def traducir_texto_openai_def traducir_texto_google_def
          openai_try_def google_try_def record_event_def Let_def
          split: sum.split option.split list.split)
qed



text \<open>
  Claim C3 against the code. The web backend raises on the paragraph \<open>Hello \<close>,
  \<open>world\<close>. The provider returns the aggregated text, which is not \<open>None\<close>, so the
  walker redistributes it: the first run holds \<open>Hello world\<close> and the second is empty.
\<close>

theorem C3_fallback_collapses_runs:
  "map run_text (runs parrafo_hello) = [''Hello '', ''world'']
   \<and> map run_text (runs (snd (fst
        (procesar_parrafo env_caido ''es'' ''auto'' ''google'' parrafo_hello mundo0))))
       = [''Hello world'', []]"
proof -
  have rec: "recopilar (runs parrafo_hello) 0 [] []
             = ([\<lparr>run_ref = 0, texto_original = ''Hello ''\<rparr>, \<lparr>run_ref = 1, texto_original = ''world''\<rparr>],
                ''Hello world'')"
    by (simp add: parrafo_hello_def strip_eval)
  have nb: "strip (parrafo_text parrafo_hello) \<noteq> []"
    by (simp add: parrafo_text_def parrafo_hello_def strip_eval)
  have tr: "traducir_texto env_caido (Some ''Hello world'') ''es'' ''auto'' ''google'' mundo0
      = (Inr (Some ''Hello world''), record_event (GoogleTranslate ''auto'' ''es'' ''Hello world'') mundo0)"
    by (simp add: traducir_texto_def strip_eval traducir_texto_google_def google_try_def
          env_caido_def env_demo_def)
  have run: "fst (procesar_parrafo env_caido ''es'' ''auto'' ''google'' parrafo_hello mundo0)
        = (None, \<lparr>runs = [\<lparr>run_text = ''Hello world'', rPr = ''b''\<rparr>, \<lparr>run_text = [], rPr = ''i''\<rparr>]\<rparr>)"
    using nb
    by (simp add: procesar_parrafo_def rec strip_eval tr redistribuir_def set_run_text_def
          escape_eval escape_ctrl_chars_Nil)
       (simp add: parrafo_hello_def)
  show ?thesis
    by (simp add: run) (simp add: parrafo_hello_def)
qed

section \<open>Save attempts of a run\<close>

text \<open>The walker saves nothing: the save attempts of a trace are those of the save step.\<close>

lemma saves_append: "saves (xs @ ys) = saves xs @ saves ys"
  by (induction xs rule: saves.induct) simp_all

lemma saves_record_event:
  "saves (trace (record_event ev w)) = saves (trace w) @ saves [ev]"
  by (simp add: record_event_def saves_append)

lemma traducir_texto_saves:
  "saves (trace (snd (traducir_texto e texto idioma_destino idioma_origen metodo w))) = saves (trace w)"
  by (simp add: traducir_texto_def traducir_texto_openai_def traducir_texto_google_def
        openai_try_def google_try_def saves_record_event Let_def
        split: sum.split option.split list.split)

lemma procesar_parrafo_world:
  "snd (procesar_parrafo e idioma_destino idioma_origen metodo p w) = w
   \<or> snd (procesar_parrafo e idioma_destino idioma_origen metodo p w)
       = snd (traducir_texto e (Some (texto_completo_de p)) idioma_destino idioma_origen metodo w)"
proof -
  obtain infos tc where rec: "recopilar (runs p) 0 [] [] = (infos, tc)"
    by (metis surj_pair)
  then have tc: "tc = texto_completo_de p" by (simp add: texto_completo_de_def)
  obtain r w1 where tr: "traducir_texto e (Some tc) idioma_destino idioma_origen metodo w = (r, w1)"
    by (metis surj_pair)
  have "snd (procesar_parrafo e idioma_destino idioma_origen metodo p w) = w
        \<or> snd (procesar_parrafo e idioma_destino idioma_origen metodo p w) = w1"
    by (simp add: procesar_parrafo_def rec tr split: sum.split option.split)
  with tr tc show ?thesis by auto
qed

lemma procesar_parrafo_saves:
  "saves (trace (snd (procesar_parrafo e idioma_destino idioma_origen metodo p w))) = saves (trace w)"
  using procesar_parrafo_world[of e idioma_destino idioma_origen metodo p w]
  by (auto simp: traducir_texto_saves)

lemma procesar_parrafos_saves:
  "saves (trace (snd (procesar_parrafos e idioma_destino idioma_origen metodo ps w))) = saves (trace w)"
proof (induction ps arbitrary: w)
  case Nil
  then show ?case by simp
next
  case (Cons p ps)
  obtain x p' w1 where a: "procesar_parrafo e idioma_destino idioma_origen metodo p w = ((x, p'), w1)"
    by (metis surj_pair)
  have w1: "saves (trace w1) = saves (trace w)"
    using procesar_parrafo_saves[of e idioma_destino idioma_origen metodo p w] by (simp add: a)
  show ?case
  proof (cases x)
    case None
    obtain y ps' w2 where b: "procesar_parrafos e idioma_destino idioma_origen metodo ps w1 = ((y, ps'), w2)"
      by (metis surj_pair)
    have "saves (trace w2) = saves (trace w1)" using Cons.IH[of w1] by (simp add: b)
    with w1 show ?thesis by (simp add: a None b)
  next
    case (Some ex)
    with w1 show ?thesis by (simp add: a)
  qed
qed

lemma procesar_forma_saves:
  "saves (trace (snd (procesar_forma e idioma_destino idioma_origen metodo forma w))) = saves (trace w)"
proof (cases "text_frame forma")
  case None
  then show ?thesis by (simp add: procesar_forma_def)
next
  case (Some ps)
  obtain x ps' w1 where a: "procesar_parrafos e idioma_destino idioma_origen metodo ps w = ((x, ps'), w1)"
    by (metis surj_pair)
  have "saves (trace w1) = saves (trace w)"
    using procesar_parrafos_saves[of e idioma_destino idioma_origen metodo ps w] by (simp add: a)
  then show ?thesis by (cases x) (simp_all add: procesar_forma_def Some a)
qed

lemma procesar_formas_saves:
  "saves (trace (snd (procesar_formas e idioma_destino idioma_origen metodo formas w))) = saves (trace w)"
proof (induction formas arbitrary: w)
  case Nil
  then show ?case by simp
next
  case (Cons forma formas)
  obtain f' w1 where a: "procesar_forma e idioma_destino idioma_origen metodo forma w = (f', w1)"
    by (metis surj_pair)
  obtain fs' w2 where b: "procesar_formas e idioma_destino idioma_origen metodo formas w1 = (fs', w2)"
    by (metis surj_pair)
  have "saves (trace w1) = saves (trace w)"
    using procesar_forma_saves[of e idioma_destino idioma_origen metodo forma w] by (simp add: a)
  moreover have "saves (trace w2) = saves (trace w1)" using Cons.IH[of w1] by (simp add: b)
  ultimately show ?case by (simp add: a b)
qed

lemma procesar_diapositivas_saves:
  "saves (trace (snd (procesar_diapositivas e idioma_destino idioma_origen metodo ds w))) = saves (trace w)"
proof (induction ds arbitrary: w)
  case Nil
  then show ?case by simp
next
  case (Cons d ds)
  obtain fs' w1 where a: "procesar_formas e idioma_destino idioma_origen metodo (shapes d) w = (fs', w1)"
    by (metis surj_pair)
  obtain ds' w2 where b: "procesar_diapositivas e idioma_destino idioma_origen metodo ds w1 = (ds', w2)"
    by (metis surj_pair)
  have "saves (trace w1) = saves (trace w)"
    using procesar_formas_saves[of e idioma_destino idioma_origen metodo "shapes d" w] by (simp add: a)
  moreover have "saves (trace w2) = saves (trace w1)" using Cons.IH[of w1] by (simp add: b)
  ultimately show ?case by (simp add: a b)
qed

lemma save_saves:
  "save e pres ruta w = (x, w1) \<Longrightarrow> saves (trace w1) = saves (trace w) @ [(ruta, x)]"
  by (auto simp: save_def record_event_def saves_append split: option.splits)

text \<open>
  When stdout encodes every character no message raises, and the save step is: the
  first save; on PermissionError, one more save under the name with a timestamp.
\<close>

lemma print_ok: "\<forall>c. stdout_encodes e c \<Longrightarrow> print_raises e msg = None"
  by (simp add: print_raises_def list_all_iff)

lemma guardar_try_printable:
  assumes "\<forall>c. stdout_encodes e c"
  shows "guardar_try e pres ruta w =
     (case save e pres ruta w of
        (Some ex, w1) \<Rightarrow> (Inl ex, w1)
      | (None, w1) \<Rightarrow> (Inr (Some ruta), w1))"
  by (simp add: guardar_try_def print_ok[OF assms] split: prod.split option.split)

lemma guardar_result:
  assumes enc: "\<forall>c. stdout_encodes e c"
  shows "\<exists>r w' new. guardar e pres nse idioma_destino ruta w = (r, w')
      \<and> saves (trace w') = saves (trace w) @ new
      \<and> ((new = [(ruta, None)] \<and> r = Inr (Some ruta))
         \<or> (\<exists>ex. ex \<noteq> PermissionError \<and> new = [(ruta, Some ex)] \<and> r = Inl ex)
         \<or> (\<exists>w1. new = [(ruta, Some PermissionError),
                          (ruta_alternativa e nse idioma_destino (strftime (now e w1)), None)]
                \<and> r = Inr (Some (ruta_alternativa e nse idioma_destino (strftime (now e w1)))))
         \<or> (\<exists>w1 ex. new = [(ruta, Some PermissionError),
                          (ruta_alternativa e nse idioma_destino (strftime (now e w1)), Some ex)]
                \<and> r = Inr None))"
proof -
  obtain x w1 where s1: "save e pres ruta w = (x, w1)" by (metis surj_pair)
  note t1 = save_saves[OF s1]
  show ?thesis
  proof (cases x)
    case None
    with s1 t1 show ?thesis by (simp add: guardar_def guardar_try_printable[OF enc])
  next
    case (Some ex)
    show ?thesis
    proof (cases "ex = PermissionError")
      case False
      with Some s1 t1 show ?thesis by (simp add: guardar_def guardar_try_printable[OF enc])
    next
      case True
      let ?alt = "ruta_alternativa e nse idioma_destino (strftime (now e w1))"
      obtain y w2 where s2: "save e pres ?alt w1 = (y, w2)" by (metis surj_pair)
      note t2 = save_saves[OF s2]
      have s2': "save e pres (join e CARPETA_TRADUCIDOS
                    (archivo_alternativo nse idioma_destino (strftime (now e w1)))) w1 = (y, w2)"
        using s2 by (simp add: ruta_alternativa_def)
      have g: "guardar e pres nse idioma_destino ruta w
               = (case y of None \<Rightarrow> (Inr (Some ?alt), w2) | Some ex2 \<Rightarrow> (Inr None, w2))"
        by (simp add: guardar_def guardar_try_printable[OF enc] print_ok[OF enc] s1 Some True s2'
              Let_def ruta_alternativa_def split: option.split)
      show ?thesis
      proof (cases y)
        case None
        have "saves (trace w2) = saves (trace w) @ [(ruta, Some PermissionError), (?alt, None)]"
          using t1 t2 by (simp add: Some True None)
        with g None show ?thesis by auto
      next
        case (Some ex2)
        have "saves (trace w2) = saves (trace w) @ [(ruta, Some PermissionError), (?alt, Some ex2)]"
          using t1 t2 by (simp add: \<open>x = Some ex\<close> True Some)
        with g Some show ?thesis by auto
      qed
    qed
  qed
qed

lemma elegir_ruta_result:
  assumes enc: "\<forall>c. stdout_encodes e c"
  shows "(\<exists>ex. ex \<noteq> PermissionError
           \<and> path_exists e w (ruta_traducida e nse idioma_destino)
           \<and> open_append e w (ruta_traducida e nse idioma_destino) = Some ex
           \<and> elegir_ruta e nse idioma_destino w = Inl ex)
   \<or> (\<not> (path_exists e w (ruta_traducida e nse idioma_destino)
           \<and> (\<exists>ex. ex \<noteq> PermissionError
                  \<and> open_append e w (ruta_traducida e nse idioma_destino) = Some ex))
       \<and> elegir_ruta e nse idioma_destino w =
           Inr (if path_exists e w (ruta_traducida e nse idioma_destino)
                   \<and> open_append e w (ruta_traducida e nse idioma_destino) = Some PermissionError
                then ruta_alternativa e nse idioma_destino (strftime (now e w))
                else ruta_traducida e nse idioma_destino))"
  by (auto simp: elegir_ruta_def Let_def print_ok[OF enc] ruta_alternativa_def split: option.split)

lemma traducir_presentacion_run:
  assumes enc: "\<forall>c. stdout_encodes e c"
  shows "\<exists>r w' new. traducir_presentacion e ruta idioma_destino idioma_origen metodo w = (Inr r, w')
      \<and> saves (trace w') = saves (trace w) @ new
      \<and> ((new = [] \<and> r = None \<and> w' = w
            \<and> ((\<exists>ex. Presentation e w ruta = Inl ex)
               \<or> (\<exists>ex. ex \<noteq> PermissionError
                     \<and> elegir_ruta e (fst (splitext e (basename e ruta))) idioma_destino w = Inl ex)))
         \<or> (\<exists>pres p1. Presentation e w ruta = Inr pres
               \<and> elegir_ruta e (fst (splitext e (basename e ruta))) idioma_destino w = Inr p1
               \<and> ((new = [(p1, None)] \<and> r = Some p1)
                  \<or> (\<exists>ex. ex \<noteq> PermissionError \<and> new = [(p1, Some ex)] \<and> r = None)
                  \<or> (\<exists>w1. new = [(p1, Some PermissionError),
                                   (ruta_alternativa e (fst (splitext e (basename e ruta)))
                                      idioma_destino (strftime (now e w1)), None)]
                         \<and> r = Some (ruta_alternativa e (fst (splitext e (basename e ruta)))
                                      idioma_destino (strftime (now e w1))))
                  \<or> (\<exists>w1 ex. new = [(p1, Some PermissionError),
                                   (ruta_alternativa e (fst (splitext e (basename e ruta)))
                                      idioma_destino (strftime (now e w1)), Some ex)]
                         \<and> r = None))))"
proof (cases "Presentation e w ruta")
  case (Inl ex)
  then show ?thesis
    by (simp add: traducir_presentacion_def traducir_presentacion_try_def print_ok[OF enc])
next
  case (Inr pres)
  let ?nse = "fst (splitext e (basename e ruta))"
  show ?thesis
  proof (cases "elegir_ruta e ?nse idioma_destino w")
    case (Inl ex)
    with elegir_ruta_result[OF enc, of w ?nse idioma_destino] have "ex \<noteq> PermissionError" by auto
    with Inl Inr show ?thesis
      by (simp add: traducir_presentacion_def traducir_presentacion_try_def Let_def print_ok[OF enc])
  next
    case p1: (Inr p1)
    obtain ds w1 where walk:
      "procesar_diapositivas e idioma_destino idioma_origen metodo (slides pres) w = (ds, w1)"
      by (metis surj_pair)
    have sw1: "saves (trace w1) = saves (trace w)"
      using procesar_diapositivas_saves[of e idioma_destino idioma_origen metodo "slides pres" w]
      by (simp add: walk)
    from guardar_result[OF enc, of "pres\<lparr>slides := ds\<rparr>" ?nse idioma_destino p1 w1]
    obtain r w' new where g: "guardar e (pres\<lparr>slides := ds\<rparr>) ?nse idioma_destino p1 w1 = (r, w')"
      and sv: "saves (trace w') = saves (trace w1) @ new"
      and cases: "(new = [(p1, None)] \<and> r = Inr (Some p1))
         \<or> (\<exists>ex. ex \<noteq> PermissionError \<and> new = [(p1, Some ex)] \<and> r = Inl ex)
         \<or> (\<exists>w1. new = [(p1, Some PermissionError),
                          (ruta_alternativa e ?nse idioma_destino (strftime (now e w1)), None)]
                \<and> r = Inr (Some (ruta_alternativa e ?nse idioma_destino (strftime (now e w1)))))
         \<or> (\<exists>w1 ex. new = [(p1, Some PermissionError),
                          (ruta_alternativa e ?nse idioma_destino (strftime (now e w1)), Some ex)]
                \<and> r = Inr None)"
      by blast
    have tp: "traducir_presentacion e ruta idioma_destino idioma_origen metodo w
              = (case r of Inl ex \<Rightarrow> (Inr None, w') | Inr x \<Rightarrow> (Inr x, w'))"
      by (simp add: traducir_presentacion_def traducir_presentacion_try_def Inr p1 walk g Let_def
            print_ok[OF enc] split: sum.split)
    from cases show ?thesis
    proof (elim disjE exE conjE)
      assume "new = [(p1, None)]" "r = Inr (Some p1)"
      with tp sv sw1 Inr p1 show ?thesis by simp
    next
      fix ex assume "ex \<noteq> PermissionError" "new = [(p1, Some ex)]" "r = Inl ex"
      with tp sv sw1 Inr p1 show ?thesis by simp
    next
      fix w2 assume "new = [(p1, Some PermissionError),
                          (ruta_alternativa e ?nse idioma_destino (strftime (now e w2)), None)]"
        "r = Inr (Some (ruta_alternativa e ?nse idioma_destino (strftime (now e w2))))"
      with tp sv sw1 Inr p1 show ?thesis by auto
    next
      fix w2 ex assume "new = [(p1, Some PermissionError),
                          (ruta_alternativa e ?nse idioma_destino (strftime (now e w2)), Some ex)]"
        "r = Inr None"
      with tp sv sw1 Inr p1 show ?thesis by auto
    qed
  qed
qed



text \<open>
  On a stdout that encodes every character \<open>traducir_presentacion\<close> raises nothing,
  and it returns a path exactly when the last save attempt succeeded.
\<close>

lemma traducir_presentacion_printable:
  assumes enc: "\<forall>c. stdout_encodes e c"
  shows "\<exists>r w' new. traducir_presentacion e ruta idioma_destino idioma_origen metodo w = (Inr r, w')
      \<and> saves (trace w') = saves (trace w) @ new
      \<and> ((new = [] \<and> r = None)
         \<or> (\<exists>p. new = [(p, None)] \<and> r = Some p)
         \<or> (\<exists>p ex. ex \<noteq> PermissionError \<and> new = [(p, Some ex)] \<and> r = None)
         \<or> (\<exists>p q. new = [(p, Some PermissionError), (q, None)] \<and> r = Some q)
         \<or> (\<exists>p q ex. new = [(p, Some PermissionError), (q, Some ex)] \<and> r = None))"
  using traducir_presentacion_run[OF enc, of ruta idioma_destino idioma_origen metodo w]
  by (elim exE conjE) (intro exI conjI, assumption, assumption, blast)

section \<open>Runs on the concrete inputs\<close>

lemmas path_defs = posix_basename_def posix_splitext_def posix_join_def posix_dirname_def
  posix_abspath_def CARPETA_TRADUCIDOS_def CARPETA_ORIGINALES_def ruta_traducida_def
  ruta_alternativa_def archivo_alternativo_def

text \<open>The pass over the presentation of one slide, with the web backend of \<open>env_demo\<close>.\<close>

lemma hello_demo:
  assumes "google_translate e = google_translate env_demo"
  shows "procesar_parrafo e ''en'' ''auto'' ''google'' parrafo_hello w
     = ((None, \<lparr>runs = [\<lparr>run_text = ''Hola mundo'', rPr = ''b''\<rparr>, \<lparr>run_text = [], rPr = ''i''\<rparr>]\<rparr>),
        record_event (GoogleTranslate ''auto'' ''en'' ''Hello world'') w)"
proof -
  have rec: "recopilar (runs parrafo_hello) 0 [] []
             = ([\<lparr>run_ref = 0, texto_original = ''Hello ''\<rparr>, \<lparr>run_ref = 1, texto_original = ''world''\<rparr>],
                ''Hello world'')"
    by (simp add: parrafo_hello_def strip_eval)
  have nb: "strip (parrafo_text parrafo_hello) \<noteq> []"
    by (simp add: parrafo_text_def parrafo_hello_def strip_eval)
  have tr: "traducir_texto e (Some ''Hello world'') ''en'' ''auto'' ''google'' w
      = (Inr (Some ''Hola mundo''), record_event (GoogleTranslate ''auto'' ''en'' ''Hello world'') w)"
    by (simp add: traducir_texto_def strip_eval traducir_texto_google_def google_try_def
          assms env_demo_def)
  show ?thesis
    using nb
    by (simp add: procesar_parrafo_def rec strip_eval tr redistribuir_def set_run_text_def
          escape_eval escape_ctrl_chars_Nil)
       (simp add: parrafo_hello_def)
qed

lemma procesar_parrafo_blank:
  "strip (parrafo_text p) = [] \<Longrightarrow>
   procesar_parrafo e idioma_destino idioma_origen metodo p w = ((None, p), w)"
  by (simp add: procesar_parrafo_def)

lemma walk_demo:
  assumes "google_translate e = google_translate env_demo"
  shows "procesar_diapositivas e ''en'' ''auto'' ''google'' (slides presentacion_demo) w
     = ([\<lparr>shapes = [\<lparr>text_frame = None\<rparr>,
           \<lparr>text_frame = Some [\<lparr>runs = [\<lparr>run_text = ''Hola mundo'', rPr = ''b''\<rparr>,
                                        \<lparr>run_text = [], rPr = ''i''\<rparr>]\<rparr>, parrafo_blanco]\<rparr>]\<rparr>],
        w\<lparr>trace := trace w @ [GoogleTranslate ''auto'' ''en'' ''Hello world''],
          progreso := progreso w + 2\<rparr>)"
  by (simp add: presentacion_demo_def procesar_forma_def hello_demo[OF assms]
        procesar_parrafo_blank[OF blanco_blank] record_event_def)

lemma stem_charla: "fst (posix_splitext (posix_basename ''charla.PPTX'')) = ''charla''"
  by (simp add: path_defs)

lemma env_demo_paths:
  "basename env_demo = posix_basename" "splitext env_demo = posix_splitext"
  "join env_demo = posix_join" "dirname env_demo = posix_dirname" "abspath env_demo = posix_abspath"
  by (simp_all add: env_demo_def)

lemma env_demo_printable: "\<forall>c. stdout_encodes env_demo c"
  by (simp add: env_demo_def)

text \<open>
  The environments that differ from \<open>env_demo\<close> in their stdout only, and the run of
  \<open>traducir_presentacion\<close> in them up to the save step.
\<close>

lemma env_stdout_fields:
  assumes "e = env_demo\<lparr>stdout_encodes := f\<rparr>"
  shows "google_translate e = google_translate env_demo"
    "basename e = posix_basename" "splitext e = posix_splitext"
    "join e = posix_join" "abspath e = posix_abspath"
    "Presentation e w ruta = Inr presentacion_demo"
    "path_exists e w ruta = (files w (posix_abspath ruta) \<noteq> None)"
    "save_raises e w p ruta = None" "to_bytes e p = ''PK''" "stdout_encodes e = f"
  by (simp_all add: assms env_demo_def)


lemma body_stdout:
  assumes e: "e = env_demo\<lparr>stdout_encodes := f\<rparr>"
    and stem: "fst (posix_splitext (posix_basename ruta)) = nse"
    and free: "files mundo0 (posix_abspath (posix_join ''traducidos'' (nse @ ''_traducido_en.pptx''))) = None"
  shows "\<exists>ds. traducir_presentacion_try e ruta ''en'' ''auto'' ''google'' mundo0
     = guardar e (presentacion_demo\<lparr>slides := ds\<rparr>) nse ''en''
         (posix_join ''traducidos'' (nse @ ''_traducido_en.pptx''))
         (mundo0\<lparr>trace := trace mundo0 @ [GoogleTranslate ''auto'' ''en'' ''Hello world''],
                 progreso := progreso mundo0 + 2\<rparr>)"
proof -
  note f = env_stdout_fields[OF e]
  have el: "elegir_ruta e nse ''en'' mundo0 = Inr (posix_join ''traducidos'' (nse @ ''_traducido_en.pptx''))"
    using free by (simp add: elegir_ruta_def f ruta_traducida_def CARPETA_TRADUCIDOS_def)
  let ?w1 = "mundo0\<lparr>trace := trace mundo0 @ [GoogleTranslate ''auto'' ''en'' ''Hello world''],
          progreso := progreso mundo0 + 2\<rparr>"
  obtain ds where walk: "procesar_diapositivas e ''en'' ''auto'' ''google'' (slides presentacion_demo) mundo0
      = (ds, ?w1)"
    using walk_demo[OF f(1), of mundo0] by blast
  have "traducir_presentacion_try e ruta ''en'' ''auto'' ''google'' mundo0
     = guardar e (presentacion_demo\<lparr>slides := ds\<rparr>) nse ''en''
         (posix_join ''traducidos'' (nse @ ''_traducido_en.pptx'')) ?w1"
    by (simp add: traducir_presentacion_try_def f Let_def stem el walk)
  then show ?thesis by blast
qed

lemma save_stdout:
  assumes e: "e = env_demo\<lparr>stdout_encodes := f\<rparr>"
  shows "save e p ruta w =
     (None, (record_event (Save ruta None) w)\<lparr>files := (files w)(posix_abspath ruta \<mapsto> ''PK'')\<rparr>)"
  by (simp add: save_def env_stdout_fields[OF e])






text \<open>
  A run on a stdout that encodes ASCII only: the save succeeds, the message after it
  raises, and so does the message of the outer handler. A run on a stdout that encodes
  the letters of the messages but not a letter of the file name: the save succeeds, the
  message after it raises, the outer handler prints and returns \<open>None\<close>.
\<close>

lemma print_ascii:
  "print_raises env_ascii (mensaje_guardada ruta) = Some UnicodeEncodeError"
  "print_raises env_ascii mensaje_error_procesar = Some UnicodeEncodeError"
  by (simp_all add: print_raises_def mensaje_guardada_def mensaje_error_procesar_def
        env_ascii_def env_demo_def)

lemma run_ascii:
  "traducir_presentacion env_ascii ''charla.PPTX'' ''en'' ''auto'' ''google'' mundo0
   = (Inl UnicodeEncodeError,
      \<lparr>trace = [GoogleTranslate ''auto'' ''en'' ''Hello world'',
                Save ''traducidos/charla_traducido_en.pptx'' None],
       files = [''/srv/ppt/charla.PPTX'' \<mapsto> ''PK-charla'',
                ''/srv/ppt/traducidos/charla_traducido_en.pptx'' \<mapsto> ''PK''],
       progreso = 2\<rparr>)"
proof -
  have free: "files mundo0 (posix_abspath (posix_join ''traducidos'' (''charla'' @ ''_traducido_en.pptx''))) = None"
    by (simp add: mundo0_def posix_abspath_def posix_join_def)
  from body_stdout[OF env_ascii_def stem_charla free] obtain ds where
    body: "traducir_presentacion_try env_ascii ''charla.PPTX'' ''en'' ''auto'' ''google'' mundo0
     = guardar env_ascii (presentacion_demo\<lparr>slides := ds\<rparr>) ''charla'' ''en''
         (posix_join ''traducidos'' (''charla'' @ ''_traducido_en.pptx''))
         (mundo0\<lparr>trace := trace mundo0 @ [GoogleTranslate ''auto'' ''en'' ''Hello world''],
                 progreso := progreso mundo0 + 2\<rparr>)"
    by blast
  have gu: "guardar env_ascii (presentacion_demo\<lparr>slides := ds\<rparr>) ''charla'' ''en''
         (posix_join ''traducidos'' (''charla'' @ ''_traducido_en.pptx''))
         (mundo0\<lparr>trace := trace mundo0 @ [GoogleTranslate ''auto'' ''en'' ''Hello world''],
                 progreso := progreso mundo0 + 2\<rparr>)
     = (Inl UnicodeEncodeError,
      \<lparr>trace = [GoogleTranslate ''auto'' ''en'' ''Hello world'',
                Save ''traducidos/charla_traducido_en.pptx'' None],
       files = [''/srv/ppt/charla.PPTX'' \<mapsto> ''PK-charla'',
                ''/srv/ppt/traducidos/charla_traducido_en.pptx'' \<mapsto> ''PK''],
       progreso = 2\<rparr>)"
    by (simp add: guardar_def guardar_try_def save_stdout[OF env_ascii_def] print_ascii
          record_event_def mundo0_def posix_abspath_def posix_join_def)
  show ?thesis
    unfolding traducir_presentacion_def body gu by (simp add: print_ascii)
qed

lemma stem_sao: "fst (posix_splitext (posix_basename ruta_sao)) = [CHR ''S'', CHR 0xE3, CHR ''o'']"
  by (simp add: path_defs ruta_sao_def)

lemma print_cp437:
  "print_raises env_cp437
     (mensaje_guardada (''traducidos/'' @ [CHR ''S'', CHR 0xE3, CHR ''o''] @ ''_traducido_en.pptx''))
   = Some UnicodeEncodeError"
  "print_raises env_cp437 mensaje_error_procesar = None"
  by (simp_all add: print_raises_def mensaje_guardada_def mensaje_error_procesar_def
        env_cp437_def env_demo_def)

lemma run_cp437:
  "traducir_presentacion env_cp437 ruta_sao ''en'' ''auto'' ''google'' mundo0
   = (Inr None,
      \<lparr>trace = [GoogleTranslate ''auto'' ''en'' ''Hello world'',
                Save (''traducidos/'' @ [CHR ''S'', CHR 0xE3, CHR ''o''] @ ''_traducido_en.pptx'') None],
       files = [''/srv/ppt/charla.PPTX'' \<mapsto> ''PK-charla'',
                ''/srv/ppt/traducidos/'' @ [CHR ''S'', CHR 0xE3, CHR ''o''] @ ''_traducido_en.pptx''
                  \<mapsto> ''PK''],
       progreso = 2\<rparr>)"
proof -
  have free: "files mundo0 (posix_abspath (posix_join ''traducidos''
                ([CHR ''S'', CHR 0xE3, CHR ''o''] @ ''_traducido_en.pptx''))) = None"
    by (simp add: mundo0_def posix_abspath_def posix_join_def)
  from body_stdout[OF env_cp437_def stem_sao free] obtain ds where
    body: "traducir_presentacion_try env_cp437 ruta_sao ''en'' ''auto'' ''google'' mundo0
     = guardar env_cp437 (presentacion_demo\<lparr>slides := ds\<rparr>) [CHR ''S'', CHR 0xE3, CHR ''o''] ''en''
         (posix_join ''traducidos'' ([CHR ''S'', CHR 0xE3, CHR ''o''] @ ''_traducido_en.pptx''))
         (mundo0\<lparr>trace := trace mundo0 @ [GoogleTranslate ''auto'' ''en'' ''Hello world''],
                 progreso := progreso mundo0 + 2\<rparr>)"
    by blast
  have pj: "posix_join ''traducidos'' ([CHR ''S'', CHR 0xE3, CHR ''o''] @ ''_traducido_en.pptx'')
            = ''traducidos/'' @ [CHR ''S'', CHR 0xE3, CHR ''o''] @ ''_traducido_en.pptx''"
    by (simp add: posix_join_def)
  have gu: "guardar env_cp437 (presentacion_demo\<lparr>slides := ds\<rparr>) [CHR ''S'', CHR 0xE3, CHR ''o''] ''en''
         (''traducidos/'' @ [CHR ''S'', CHR 0xE3, CHR ''o''] @ ''_traducido_en.pptx'')
         (mundo0\<lparr>trace := trace mundo0 @ [GoogleTranslate ''auto'' ''en'' ''Hello world''],
                 progreso := progreso mundo0 + 2\<rparr>)
     = (Inl UnicodeEncodeError,
      \<lparr>trace = [GoogleTranslate ''auto'' ''en'' ''Hello world'',
                Save (''traducidos/'' @ [CHR ''S'', CHR 0xE3, CHR ''o''] @ ''_traducido_en.pptx'') None],
       files = [''/srv/ppt/charla.PPTX'' \<mapsto> ''PK-charla'',
                ''/srv/ppt/traducidos/'' @ [CHR ''S'', CHR 0xE3, CHR ''o''] @ ''_traducido_en.pptx''
                  \<mapsto> ''PK''],
       progreso = 2\<rparr>)"
    unfolding guardar_def guardar_try_def save_stdout[OF env_cp437_def] print_cp437
    by (simp add: record_event_def mundo0_def posix_abspath_def)
  show ?thesis
    unfolding traducir_presentacion_def body pj gu by (simp add: print_cp437)
qed

section \<open>Messages that stdout cannot encode\<close>

text \<open>
  Claim C10 fails on a stdout that cannot encode a message. With an ASCII stdout and
  the input \<open>charla.PPTX\<close> the presentation is saved to
  \<open>traducidos/charla_traducido_en.pptx\<close>; the message after the save (line 255) holds
  the letter U+00F3 and raises UnicodeEncodeError, the outer handler catches it, and
  its own message (line 273) holds the same letter and raises outside every \<open>try\<close>:
  the function raises although the save succeeded. With a stdout that encodes the
  letters of the messages but not U+00E3, and an input whose name holds that letter,
  the message after the save raises, the outer handler prints its message and the
  function returns \<open>None\<close> although the save succeeded. With an ASCII stdout and a
  file that does not open, the message of the outer handler raises: the function
  raises where the claim has it return \<open>None\<close>.
\<close>

theorem C10_message_raises_after_save:
  "fst (traducir_presentacion env_ascii ''charla.PPTX'' ''en'' ''auto'' ''google'' mundo0)
     = Inl UnicodeEncodeError
   \<and> saves (trace (snd (traducir_presentacion env_ascii ''charla.PPTX'' ''en'' ''auto'' ''google'' mundo0)))
     = [(''traducidos/charla_traducido_en.pptx'', None)]
   \<and> files (snd (traducir_presentacion env_ascii ''charla.PPTX'' ''en'' ''auto'' ''google'' mundo0))
       ''/srv/ppt/traducidos/charla_traducido_en.pptx'' = Some ''PK''
   \<and> fst (traducir_presentacion env_cp437 ruta_sao ''en'' ''auto'' ''google'' mundo0) = Inr None
   \<and> saves (trace (snd (traducir_presentacion env_cp437 ruta_sao ''en'' ''auto'' ''google'' mundo0)))
     = [(''traducidos/'' @ [CHR ''S'', CHR 0xE3, CHR ''o''] @ ''_traducido_en.pptx'', None)]
   \<and> traducir_presentacion (env_no_abre\<lparr>stdout_encodes := (\<lambda>c. False)\<rparr>)
         ''charla.PPTX'' ''en'' ''auto'' ''google'' mundo0
     = (Inl UnicodeEncodeError, mundo0)"
proof -
  have "traducir_presentacion (env_no_abre\<lparr>stdout_encodes := (\<lambda>c. False)\<rparr>)
         ''charla.PPTX'' ''en'' ''auto'' ''google'' mundo0
     = (Inl UnicodeEncodeError, mundo0)"
    by (simp add: traducir_presentacion_def traducir_presentacion_try_def
          env_no_abre_def env_demo_def print_raises_def mensaje_error_procesar_def)
  then show ?thesis
    by (simp add: run_ascii run_cp437)
qed

section \<open>The name of the output file\<close>




lemma lower_charla: "lower ''charla.PPTX'' = ''charla.pptx''"
  by (simp add: lower_def lower_char_def char_of_def bit_0)

section \<open>The archive copy\<close>

text \<open>When the command line passes every check, \<open>main\<close> archives, then translates.\<close>

lemma main_valid:
  assumes "3 \<le> length argv" and "argv ! 1 \<noteq> ''-h''" and "argv ! 1 \<noteq> ''--help''"
    and "length argv \<le> 4 \<or> argv ! 4 = ''google''
         \<or> (argv ! 4 = ''openai'' \<and> \<not> falsy (getenv e ''OPENAI_API_KEY''))"
    and "path_exists e w (argv ! 1)"
    and "endswith (lower (argv ! 1)) ''.pptx'' \<or> endswith (lower (argv ! 1)) ''.ppt''"
  shows "main e argv w =
     (case mover_a_originales e (argv ! 1) w of
        (Inl ex, w1) \<Rightarrow> (Some ex, w1)
      | (Inr ruta, w1) \<Rightarrow>
          (case print_raises e
                  (mensaje_traduciendo ruta (if length argv > 3 then argv ! 3 else ''auto'') (argv ! 2)
                     (if length argv > 4 then argv ! 4 else ''google'')) of
             Some ex \<Rightarrow> (Some ex, w1)
           | None \<Rightarrow>
               (case traducir_presentacion e ruta (argv ! 2)
                       (if length argv > 3 then argv ! 3 else ''auto'')
                       (if length argv > 4 then argv ! 4 else ''google'') w1 of
                  (Inl ex, w2) \<Rightarrow> (Some ex, w2)
                | (Inr r, w2) \<Rightarrow> (None, w2))))"
proof -
  let ?m = "if length argv > 4 then argv ! 4 else ''google''"
  have m: "?m \<in> {''google'', ''openai''}" "\<not> (?m = ''openai'' \<and> falsy (getenv e ''OPENAI_API_KEY''))"
    using assms(4) by auto
  have a: "\<not> (length argv < 3 \<or> argv ! 1 \<in> {''-h'', ''--help''})"
    using assms(1,2,3) by auto
  show ?thesis
    unfolding main_def Let_def if_not_P[OF a]
    using m assms(5,6) by (cases "4 < length argv") auto
qed

text \<open>
  Claim C8. A file already in the originals directory is returned as it is: nothing is
  copied. For any other path \<open>shutil.copy2\<close> is called on the file and
  \<open>join(originales, basename)\<close>: when it raises, the exception leaves the function; when
  it returns, the copy holds the bytes of the input and the input still holds them,
  and the function returns the path of the copy, unless its message
  \<open>Archivo copiado a\<close> raises. For a command line that passes its checks, \<open>main\<close> runs
  this step first and translates in the world it leaves, on the path it returns; when
  the copy step raises, or the message \<open>Traduciendo\<close> after it, nothing is translated.
\<close>

theorem C8_archive_copy:
  "(dirname e (abspath e ruta) = abspath e CARPETA_ORIGINALES \<longrightarrow>
      mover_a_originales e ruta w = (Inr ruta, w))
   \<and> (dirname e (abspath e ruta) \<noteq> abspath e CARPETA_ORIGINALES \<longrightarrow>
        (case copy2_raises e w ruta (join e CARPETA_ORIGINALES (basename e ruta)) of
           Some ex \<Rightarrow>
             mover_a_originales e ruta w =
               (Inl ex, record_event
                  (Copy2 ruta (join e CARPETA_ORIGINALES (basename e ruta)) (Some ex)) w)
         | None \<Rightarrow>
             (\<exists>w1. mover_a_originales e ruta w
                      = (case print_raises e
                                (''Archivo copiado a: '' @ join e CARPETA_ORIGINALES (basename e ruta)) of
                           Some ex \<Rightarrow> Inl ex
                         | None \<Rightarrow> Inr (join e CARPETA_ORIGINALES (basename e ruta)), w1)
                \<and> trace w1 = trace w
                     @ [Copy2 ruta (join e CARPETA_ORIGINALES (basename e ruta)) None]
                \<and> files w1 (abspath e (join e CARPETA_ORIGINALES (basename e ruta)))
                    = files w (abspath e ruta)
                \<and> files w1 (abspath e ruta) = files w (abspath e ruta))))
   \<and> (3 \<le> length argv \<and> argv ! 1 = ruta \<and> ruta \<noteq> ''-h'' \<and> ruta \<noteq> ''--help''
        \<and> (length argv \<le> 4 \<or> argv ! 4 = ''google''
             \<or> (argv ! 4 = ''openai'' \<and> \<not> falsy (getenv e ''OPENAI_API_KEY'')))
        \<and> path_exists e w ruta
        \<and> (endswith (lower ruta) ''.pptx'' \<or> endswith (lower ruta) ''.ppt'')
       \<longrightarrow>
        main e argv w =
          (case mover_a_originales e ruta w of
             (Inl ex, w1) \<Rightarrow> (Some ex, w1)
           | (Inr copia, w1) \<Rightarrow>
               (case print_raises e
                       (mensaje_traduciendo copia (if length argv > 3 then argv ! 3 else ''auto'')
                          (argv ! 2) (if length argv > 4 then argv ! 4 else ''google'')) of
                  Some ex \<Rightarrow> (Some ex, w1)
                | None \<Rightarrow>
                    (case traducir_presentacion e copia (argv ! 2)
                            (if length argv > 3 then argv ! 3 else ''auto'')
                            (if length argv > 4 then argv ! 4 else ''google'') w1 of
                       (Inl ex, w2) \<Rightarrow> (Some ex, w2)
                     | (Inr r, w2) \<Rightarrow> (None, w2)))))"
proof -
  let ?nueva = "join e CARPETA_ORIGINALES (basename e ruta)"
  let ?w1 = "(record_event (Copy2 ruta ?nueva None) w)
               \<lparr>files := (files w)(abspath e ?nueva := files w (abspath e ruta))\<rparr>"
  let ?r = "case print_raises e (''Archivo copiado a: '' @ ?nueva) of
              Some ex \<Rightarrow> Inl ex | None \<Rightarrow> Inr ?nueva"
  have inside: "dirname e (abspath e ruta) = abspath e CARPETA_ORIGINALES \<longrightarrow>
      mover_a_originales e ruta w = (Inr ruta, w)"
    by (simp add: mover_a_originales_def)
  have w1: "trace ?w1 = trace w @ [Copy2 ruta ?nueva None]"
    "files ?w1 (abspath e ?nueva) = files w (abspath e ruta)"
    "files ?w1 (abspath e ruta) = files w (abspath e ruta)"
    by (simp_all add: record_event_def)
  have outside: "case copy2_raises e w ruta ?nueva of
           Some ex \<Rightarrow>
             mover_a_originales e ruta w = (Inl ex, record_event (Copy2 ruta ?nueva (Some ex)) w)
         | None \<Rightarrow>
             (\<exists>w1. mover_a_originales e ruta w = (?r, w1)
                \<and> trace w1 = trace w @ [Copy2 ruta ?nueva None]
                \<and> files w1 (abspath e ?nueva) = files w (abspath e ruta)
                \<and> files w1 (abspath e ruta) = files w (abspath e ruta))"
    if a: "dirname e (abspath e ruta) \<noteq> abspath e CARPETA_ORIGINALES"
  proof (cases "copy2_raises e w ruta ?nueva")
    case None
    with a have "mover_a_originales e ruta w = (?r, ?w1)"
      by (simp add: mover_a_originales_def mensaje_copiado_def Let_def)
    with w1 show ?thesis unfolding None option.case by (intro exI[of _ ?w1] conjI)
  next
    case (Some ex)
    with a have "mover_a_originales e ruta w = (Inl ex, record_event (Copy2 ruta ?nueva (Some ex)) w)"
      by (simp add: mover_a_originales_def Let_def)
    then show ?thesis unfolding Some option.case .
  qed
  have order: "main e argv w =
          (case mover_a_originales e ruta w of
             (Inl ex, w1) \<Rightarrow> (Some ex, w1)
           | (Inr copia, w1) \<Rightarrow>
               (case print_raises e
                       (mensaje_traduciendo copia (if length argv > 3 then argv ! 3 else ''auto'')
                          (argv ! 2) (if length argv > 4 then argv ! 4 else ''google'')) of
                  Some ex \<Rightarrow> (Some ex, w1)
                | None \<Rightarrow>
                    (case traducir_presentacion e copia (argv ! 2)
                            (if length argv > 3 then argv ! 3 else ''auto'')
                            (if length argv > 4 then argv ! 4 else ''google'') w1 of
                       (Inl ex, w2) \<Rightarrow> (Some ex, w2)
                     | (Inr r, w2) \<Rightarrow> (None, w2))))"
    if "3 \<le> length argv \<and> argv ! 1 = ruta \<and> ruta \<noteq> ''-h'' \<and> ruta \<noteq> ''--help''
        \<and> (length argv \<le> 4 \<or> argv ! 4 = ''google''
             \<or> (argv ! 4 = ''openai'' \<and> \<not> falsy (getenv e ''OPENAI_API_KEY'')))
        \<and> path_exists e w ruta
        \<and> (endswith (lower ruta) ''.pptx'' \<or> endswith (lower ruta) ''.ppt'')"
    using main_valid[of argv e w] that by blast
  from inside outside order show ?thesis by blast
qed

text \<open>
  \<open>charla.PPTX\<close> in the working directory is copied to \<open>originales/charla.PPTX\<close>
  before it is translated; \<open>originales/charla.PPTX\<close> is not copied.
\<close>

theorem C8_archive_copy_witness:
  "files (snd (mover_a_originales env_demo ''charla.PPTX'' mundo0)) ''/srv/ppt/originales/charla.PPTX''
     = Some ''PK-charla''
   \<and> files (snd (mover_a_originales env_demo ''charla.PPTX'' mundo0)) ''/srv/ppt/charla.PPTX''
     = Some ''PK-charla''
   \<and> trace (snd (mover_a_originales env_demo ''charla.PPTX'' mundo0))
     = [Copy2 ''charla.PPTX'' ''originales/charla.PPTX'' None]
   \<and> fst (mover_a_originales env_demo ''charla.PPTX'' mundo0) = Inr ''originales/charla.PPTX''
   \<and> mover_a_originales env_demo ''originales/charla.PPTX'' mundo1
     = (Inr ''originales/charla.PPTX'', mundo1)
   \<and> main env_demo [''traductor_ppt.py'', ''charla.PPTX'', ''en''] mundo0
     = (None, snd (traducir_presentacion env_demo ''originales/charla.PPTX'' ''en'' ''auto'' ''google''
                     (snd (mover_a_originales env_demo ''charla.PPTX'' mundo0))))"
proof -
  let ?argv = "[''traductor_ppt.py'', ''charla.PPTX'', ''en'']"
  note pr = print_ok[OF env_demo_printable]
  have valid: "3 \<le> length ?argv \<and> ?argv ! 1 = ''charla.PPTX''
        \<and> ''charla.PPTX'' \<noteq> ''-h'' \<and> ''charla.PPTX'' \<noteq> ''--help''
        \<and> (length ?argv \<le> 4 \<or> ?argv ! 4 = ''google''
             \<or> (?argv ! 4 = ''openai'' \<and> \<not> falsy (getenv env_demo ''OPENAI_API_KEY'')))
        \<and> path_exists env_demo mundo0 ''charla.PPTX''
        \<and> (endswith (lower ''charla.PPTX'') ''.pptx'' \<or> endswith (lower ''charla.PPTX'') ''.ppt'')"
    by (simp add: lower_charla endswith_def) (simp add: env_demo_def mundo0_def posix_abspath_def)
  have out: "dirname env_demo (abspath env_demo ''charla.PPTX'') \<noteq> abspath env_demo CARPETA_ORIGINALES"
    by (simp add: env_demo_paths path_defs)
  have ins: "dirname env_demo (abspath env_demo ''originales/charla.PPTX'')
             = abspath env_demo CARPETA_ORIGINALES"
    by (simp add: env_demo_paths path_defs)
  have cp: "copy2_raises env_demo mundo0 ''charla.PPTX''
              (join env_demo CARPETA_ORIGINALES (basename env_demo ''charla.PPTX'')) = None"
    by (simp add: env_demo_def)
  have nueva: "join env_demo CARPETA_ORIGINALES (basename env_demo ''charla.PPTX'') = ''originales/charla.PPTX''"
    by (simp add: env_demo_paths path_defs)
  have abs: "abspath env_demo ''originales/charla.PPTX'' = ''/srv/ppt/originales/charla.PPTX''"
    "abspath env_demo ''charla.PPTX'' = ''/srv/ppt/charla.PPTX''"
    by (simp_all add: env_demo_paths posix_abspath_def)
  have f0: "files mundo0 ''/srv/ppt/charla.PPTX'' = Some ''PK-charla''" "trace mundo0 = []"
    by (simp_all add: mundo0_def)
  note thm0 = C8_archive_copy[of env_demo "''charla.PPTX''" mundo0 ?argv]
  from thm0 out cp obtain w1 where
    "mover_a_originales env_demo ''charla.PPTX'' mundo0
        = (case print_raises env_demo
                  (''Archivo copiado a: '' @ join env_demo CARPETA_ORIGINALES (basename env_demo ''charla.PPTX'')) of
             Some ex \<Rightarrow> Inl ex
           | None \<Rightarrow> Inr (join env_demo CARPETA_ORIGINALES (basename env_demo ''charla.PPTX'')), w1)"
    "trace w1 = trace mundo0
        @ [Copy2 ''charla.PPTX'' (join env_demo CARPETA_ORIGINALES (basename env_demo ''charla.PPTX'')) None]"
    "files w1 (abspath env_demo (join env_demo CARPETA_ORIGINALES (basename env_demo ''charla.PPTX'')))
        = files mundo0 (abspath env_demo ''charla.PPTX'')"
    "files w1 (abspath env_demo ''charla.PPTX'') = files mundo0 (abspath env_demo ''charla.PPTX'')"
    by auto
  then have a: "mover_a_originales env_demo ''charla.PPTX'' mundo0 = (Inr ''originales/charla.PPTX'', w1)"
    "trace w1 = [Copy2 ''charla.PPTX'' ''originales/charla.PPTX'' None]"
    "files w1 ''/srv/ppt/originales/charla.PPTX'' = Some ''PK-charla''"
    "files w1 ''/srv/ppt/charla.PPTX'' = Some ''PK-charla''"
    by (simp_all add: nueva abs f0 pr)
  from traducir_presentacion_printable[OF env_demo_printable,
      of "''originales/charla.PPTX''" "''en''" "''auto''" "''google''" w1]
  obtain r w2 where tp: "traducir_presentacion env_demo ''originales/charla.PPTX'' ''en'' ''auto'' ''google'' w1
      = (Inr r, w2)"
    by blast
  from thm0 valid have "main env_demo ?argv mundo0 =
          (case mover_a_originales env_demo ''charla.PPTX'' mundo0 of
             (Inl ex, w1) \<Rightarrow> (Some ex, w1)
           | (Inr copia, w1) \<Rightarrow>
               (case print_raises env_demo
                       (mensaje_traduciendo copia (if length ?argv > 3 then ?argv ! 3 else ''auto'')
                          (?argv ! 2) (if length ?argv > 4 then ?argv ! 4 else ''google'')) of
                  Some ex \<Rightarrow> (Some ex, w1)
                | None \<Rightarrow>
                    (case traducir_presentacion env_demo copia (?argv ! 2)
                            (if length ?argv > 3 then ?argv ! 3 else ''auto'')
                            (if length ?argv > 4 then ?argv ! 4 else ''google'') w1 of
                       (Inl ex, w2) \<Rightarrow> (Some ex, w2)
                     | (Inr r, w2) \<Rightarrow> (None, w2))))"
    by blast
  then have c: "main env_demo ?argv mundo0
     = (None, snd (traducir_presentacion env_demo ''originales/charla.PPTX'' ''en'' ''auto'' ''google'' w1))"
    by (simp add: a(1) tp pr)
  from C8_archive_copy[of env_demo "''originales/charla.PPTX''" mundo1 ?argv] ins
  have b: "mover_a_originales env_demo ''originales/charla.PPTX'' mundo1
     = (Inr ''originales/charla.PPTX'', mundo1)"
    by blast
  from a b c show ?thesis by simp
qed

end
